theory Spec2Isabelle
  imports Main
begin

section \<open>Data model\<close>

text \<open>
  The store keeps its state in MongoDB collections. A document's \<open>_id\<close> is modelled as
  a natural number. Orders are never physically deleted (soft delete only), so the Order
  collection is a list in insertion order and an order's \<open>_id\<close> is its position in it.
  Currency amounts, prices, quantities and stock are JavaScript Numbers holding integers;
  they are modelled as \<open>int\<close>. Timestamps are left out.
\<close>

type_synonym oid = nat

text \<open>
  An address object: \<open>shippingAddress\<close> of \<open>models/Order.js\<close> or of a request body.
  A field that is absent (\<open>undefined\<close>) is \<open>None\<close>, so that \<open>===\<close> on two fields is
  equality of options: an absent field and the empty string differ.
\<close>

record address =
  fullName :: "string option"
  name :: "string option"
  phone :: "string option"
  houseNo :: "string option"
  street :: "string option"
  landmark :: "string option"
  city :: "string option"
  state :: "string option"
  pincode :: "string option"

text \<open>An entry of \<open>user.addresses\<close> (\<open>models/User.js\<close>).\<close>

record saved_address = address +
  label :: string
  isDefault :: bool

record user_doc =
  addresses :: "saved_address list"

text \<open>A line item of an order: \<open>product\<close> is \<open>None\<close> for an ad-hoc item.\<close>

record item =
  product :: "oid option"
  price :: int
  quantity :: int

text \<open>
  \<open>orderSchema\<close> of \<open>models/Order.js\<close>. \<open>status\<close>, \<open>paymentMethod\<close> and
  \<open>paymentStatus\<close> are strings checked against their enums when the document is saved.
  A history entry is a pair (status, note).
\<close>

record order =
  user :: oid
  orderNumber :: nat
  items :: "item list"
  totalAmount :: int
  shippingCharge :: int
  status :: string
  paymentMethod :: string
  paymentStatus :: string
  paymentId :: "string option"
  razorpayOrderId :: "string option"
  razorpaySignature :: "string option"
  shippingAddress :: "address option"
  stockReduced :: bool
  statusHistory :: "(string \<times> string) list"
  invoicePath :: "string option"
  invoiceUrl :: "string option"

text \<open>\<open>paymentSchema\<close> of \<open>models/Payment.js\<close> (the fields the routes write).\<close>

record payment =
  razorpayPaymentId :: "string option"
  pay_razorpayOrderId :: "string option"
  pay_razorpaySignature :: "string option"
  pay_order :: "oid option"
  pay_user :: "oid option"
  amount :: int
  pay_method :: string
  pay_status :: string

text \<open>\<open>productSchema\<close> of \<open>models/Product.js\<close>: the stock on hand and the price.\<close>

record product_doc =
  stock :: int
  prod_price :: int

text \<open>
  A cart line. \<open>c_product\<close> distinguishes the three branches of the enrichment loop:
  a \<open>demo-\<close> id, a catalogue product, or no product at all. A price that is absent is
  \<open>0\<close> (both are falsy under \<open>||\<close>).
\<close>

datatype prod_ref = NoRef | DemoRef | ProductRef oid

record cart_item =
  c_product :: prod_ref
  c_price :: int
  c_quantity :: int

text \<open>
  The database: the Order and Payment collections, and the Product, Cart and User
  collections by \<open>_id\<close> (a cart by its user, which the schema makes unique).
\<close>

record db =
  orders :: "order list"
  payments :: "payment list"
  products :: "oid \<Rightarrow> product_doc option"
  carts :: "oid \<Rightarrow> cart_item list option"
  users :: "oid \<Rightarrow> user_doc option"

text \<open>
  Failures. \<open>MongoError c\<close> is a driver error with code \<open>c\<close> (11000 is a duplicate key),
  \<open>ValidationError\<close> is Mongoose's, \<open>InvoiceError\<close> is whatever the PDF controller
  throws, and \<open>NoAttempt\<close> is the \<open>lastError\<close> of a transaction that made no attempt.
  The others name the messages the routes send:
  \<open>InvalidSignature\<close> is "Invalid payment signature", \<open>InvalidWebhookSignature\<close> is
  "Invalid webhook signature", \<open>CODLimitExceeded\<close> is
  "COD is only available for orders up to 5,000", \<open>OrderIdRequired\<close> is
  "Order ID is required", \<open>OrderNotFound\<close> is "Order not found", \<open>Unauthorized\<close> is
  "Unauthorized", \<open>AccessDenied\<close> is "Access denied", \<open>CartEmpty\<close> is "Cart is empty",
  \<open>ProductNotFound\<close> is "Product not found: ...", \<open>IllegalTransition\<close> is
  "Cannot cancel order that has been shipped or delivered" and \<open>AlreadyCancelled\<close> is
  "Order is already cancelled".
\<close>

datatype error =
    InvalidSignature
  | InvalidWebhookSignature
  | CODLimitExceeded
  | OrderIdRequired
  | OrderNotFound
  | Unauthorized
  | AccessDenied
  | CartEmpty
  | ProductNotFound oid
  | IllegalTransition
  | AlreadyCancelled
  | ValidationError
  | InvoiceError
  | MongoError nat
  | NoAttempt

text \<open>
  What a route sends back: \<open>Success msg orderId orderNumber\<close> is
  \<open>{success: true, message, orderId, orderNumber}\<close>, \<open>Failure code e\<close> is
  \<open>res.status(code)\<close> with the message of \<open>e\<close>, \<open>Received s\<close> is the webhook's
  \<open>{received: true[, status: s]}\<close>, and \<open>OrderJson i\<close> is the order document itself.
\<close>

datatype response =
    Success string oid nat
  | Failure nat error
  | Received "string option"
  | OrderJson oid

fun resp_orderNumber :: "response \<Rightarrow> nat option" where
  "resp_orderNumber (Success m i n) = Some n"
| "resp_orderNumber (Failure c e) = None"
| "resp_orderNumber (Received s) = None"
| "resp_orderNumber (OrderJson i) = None"

text \<open>
  What lies outside the repository: the keyed hash of Node's \<open>crypto\<close>
  (\<open>hmac_sha256 key message\<close> is the hex digest), the secrets of the process
  environment, and the PDF controller (\<open>None\<close> when it throws).
\<close>

record env =
  hmac_sha256 :: "string \<Rightarrow> string \<Rightarrow> string"
  RAZORPAY_KEY_SECRET :: "string option"
  RAZORPAY_WEBHOOK_SECRET :: "string option"
  generateAndSaveInvoice :: "order \<Rightarrow> (string \<times> string) option"

section \<open>Collections\<close>

text \<open>The enums of the Order schema and of the Payment schema.\<close>

definition status_enum :: "string list" where
  "status_enum = [''CREATED'', ''PENDING'', ''PAID'', ''PLACED'', ''SHIPPED'', ''DELIVERED'', ''CANCELLED'']"

definition paymentMethod_enum :: "string list" where
  "paymentMethod_enum = [''COD'', ''Razorpay'', ''UPI'', ''Card'', ''NetBanking'', ''Wallet'', ''Pending'']"

definition paymentStatus_enum :: "string list" where
  "paymentStatus_enum = [''Pending'', ''Paid'', ''Failed'', ''Refunded'']"

definition pay_method_enum :: "string list" where
  "pay_method_enum = [''UPI'', ''Card'', ''NetBanking'', ''Wallet'', ''COD'', ''Unknown'']"

definition pay_status_enum :: "string list" where
  "pay_status_enum = [''CREATED'', ''PENDING'', ''PAID'', ''FAILED'', ''REFUNDED'', ''CANCELLED'']"

text \<open>
  Schema validation of an order and of a payment on \<open>save()\<close>: the enum fields (the
  required fields are always present in this model).
\<close>

definition Order_valid :: "order \<Rightarrow> bool" where
  "Order_valid od = (status od \<in> set status_enum
      \<and> paymentMethod od \<in> set paymentMethod_enum
      \<and> paymentStatus od \<in> set paymentStatus_enum)"

definition Payment_valid :: "payment \<Rightarrow> bool" where
  "Payment_valid p = (pay_method p \<in> set pay_method_enum
      \<and> pay_status p \<in> set pay_status_enum)"

text \<open>\<open>Order.findById\<close>.\<close>

definition Order_findById :: "db \<Rightarrow> oid \<Rightarrow> order option" where
  "Order_findById d i = (if i < length (orders d) then Some (orders d ! i) else None)"

text \<open>\<open>Order.findOne({paymentId})\<close>: the first order bearing the payment id.\<close>

fun find_index_from :: "('a \<Rightarrow> bool) \<Rightarrow> 'a list \<Rightarrow> nat \<Rightarrow> (nat \<times> 'a) option" where
  "find_index_from P [] k = None"
| "find_index_from P (x # xs) k = (if P x then Some (k, x) else find_index_from P xs (Suc k))"

definition Order_findOne_paymentId :: "db \<Rightarrow> string option \<Rightarrow> (oid \<times> order) option" where
  "Order_findOne_paymentId d pid = find_index_from (\<lambda>od. paymentId od = pid) (orders d) 0"

text \<open>
  \<open>save()\<close> of a new order: the pre-save hook numbers it \<open>count + 1\<close>, the schema is
  validated, and the unique indexes on \<open>orderNumber\<close> and on \<open>paymentId\<close> (sparse: only
  a present payment id is indexed) refuse a duplicate with error 11000.
\<close>

definition Order_insert :: "db \<Rightarrow> order \<Rightarrow> error + (oid \<times> db)" where
  "Order_insert d od =
     (let od' = od\<lparr>orderNumber := Suc (length (orders d))\<rparr> in
      if \<not> Order_valid od' then Inl ValidationError
      else if orderNumber od' \<in> set (map orderNumber (orders d)) then Inl (MongoError 11000)
      else if paymentId od' \<noteq> None \<and> paymentId od' \<in> set (map paymentId (orders d))
        then Inl (MongoError 11000)
      else Inr (length (orders d), d\<lparr>orders := orders d @ [od']\<rparr>))"

text \<open>
  \<open>save()\<close> of a loaded order \<open>i\<close>: validation, and the unique index on \<open>paymentId\<close>
  when the payment id changed.
\<close>

definition Order_save :: "db \<Rightarrow> oid \<Rightarrow> order \<Rightarrow> error + db" where
  "Order_save d i od =
     (if \<not> Order_valid od then Inl ValidationError
      else if paymentId od \<noteq> None \<and> Some (paymentId od) \<noteq> map_option paymentId (Order_findById d i)
              \<and> paymentId od \<in> set (map paymentId (orders d))
        then Inl (MongoError 11000)
      else Inr (d\<lparr>orders := (orders d)[i := od]\<rparr>))"

section \<open>Idempotency guard\<close>

text \<open>
  \<open>isPaymentAlreadyProcessed\<close> (\<open>routes/payment.js\<close>). The payment id of a request is
  \<open>None\<close> when it is \<open>null\<close> or \<open>undefined\<close>; \<open>!paymentId\<close> is also true of the empty
  string.
\<close>

definition isPaymentAlreadyProcessed :: "db \<Rightarrow> string option \<Rightarrow> bool" where
  "isPaymentAlreadyProcessed d pid =
     (case pid of
        None \<Rightarrow> False
      | Some p \<Rightarrow>
          if p = [] then False
          else find (\<lambda>od. paymentId od = Some p \<and> paymentStatus od = ''Paid'') (orders d) \<noteq> None)"

section \<open>Stock\<close>

text \<open>\<open>item.quantity || 1\<close>.\<close>

definition qty_or_1 :: "int \<Rightarrow> int" where
  "qty_or_1 q = (if q = 0 then 1 else q)"

text \<open>
  The loop of \<open>reduceStockAfterPayment\<close>: for each item with a product that is found,
  \<open>product.stock = Math.max(0, product.stock - (item.quantity || 1))\<close> and save.
\<close>

fun reduce_loop :: "(oid \<Rightarrow> product_doc option) \<Rightarrow> item list \<Rightarrow> (oid \<Rightarrow> product_doc option)" where
  "reduce_loop ps [] = ps"
| "reduce_loop ps (it # its) =
     (case product it of
        None \<Rightarrow> reduce_loop ps its
      | Some pid \<Rightarrow>
          (case ps pid of
             None \<Rightarrow> reduce_loop ps its
           | Some pr \<Rightarrow>
               reduce_loop (ps(pid \<mapsto> pr\<lparr>stock := max 0 (stock pr - qty_or_1 (quantity it))\<rparr>)) its))"

text \<open>
  \<open>reduceStockAfterPayment(order)\<close>, on the order \<open>i\<close> as last saved. It returns
  \<open>false\<close> without touching anything when the order is missing or its stock was already
  reduced; otherwise it runs the loop, sets \<open>stockReduced\<close> and saves the order. An error
  of that save is caught and \<open>false\<close> returned.
\<close>

definition reduceStockAfterPayment :: "db \<Rightarrow> oid \<Rightarrow> bool \<times> db" where
  "reduceStockAfterPayment d i =
     (case Order_findById d i of
        None \<Rightarrow> (False, d)
      | Some od \<Rightarrow>
          if stockReduced od then (False, d)
          else
            (let d1 = d\<lparr>products := reduce_loop (products d) (items od)\<rparr> in
             case Order_save d1 i (od\<lparr>stockReduced := True\<rparr>) of
               Inl e \<Rightarrow> (False, d1)
             | Inr d2 \<Rightarrow> (True, d2)))"

section \<open>Payment ledger\<close>

text \<open>The argument of \<open>createPaymentRecord\<close>; \<open>None\<close> is an absent field.\<close>

record paymentData =
  pdat_paymentId :: "string option"
  pdat_razorpayOrderId :: "string option"
  pdat_razorpaySignature :: "string option"
  pdat_orderId :: "oid option"
  pdat_userId :: "oid option"
  pdat_amount :: int
  pdat_method :: "string option"
  pdat_status :: "string option"

text \<open>\<open>x || dflt\<close> on a string that may be absent.\<close>

definition str_or :: "string option \<Rightarrow> string \<Rightarrow> string" where
  "str_or x dflt = (case x of None \<Rightarrow> dflt | Some s \<Rightarrow> if s = [] then dflt else s)"

text \<open>
  \<open>payment.save()\<close>: schema validation, then the unique sparse index on
  \<open>razorpayPaymentId\<close>.
\<close>

definition Payment_save :: "db \<Rightarrow> payment \<Rightarrow> error + db" where
  "Payment_save d p =
     (if \<not> Payment_valid p then Inl ValidationError
      else if razorpayPaymentId p \<noteq> None
              \<and> razorpayPaymentId p \<in> set (map razorpayPaymentId (payments d))
        then Inl (MongoError 11000)
      else Inr (d\<lparr>payments := payments d @ [p]\<rparr>))"

text \<open>
  \<open>createPaymentRecord\<close>: every error of the save is caught and \<open>null\<close> returned
  (a duplicate key counts as already recorded).
\<close>

definition createPaymentRecord :: "db \<Rightarrow> paymentData \<Rightarrow> payment option \<times> db" where
  "createPaymentRecord d pdat =
     (let p = \<lparr> razorpayPaymentId = pdat_paymentId pdat,
                pay_razorpayOrderId = pdat_razorpayOrderId pdat,
                pay_razorpaySignature = pdat_razorpaySignature pdat,
                pay_order = pdat_orderId pdat,
                pay_user = pdat_userId pdat,
                amount = pdat_amount pdat,
                pay_method = str_or (pdat_method pdat) ''UPI'',
                pay_status = str_or (pdat_status pdat) ''PAID'' \<rparr>
      in case Payment_save d p of
           Inl err \<Rightarrow> (None, d)
         | Inr d' \<Rightarrow> (Some p, d'))"

section \<open>Saved addresses and the cart\<close>

text \<open>
  \<open>saveAddressToUserOnPaymentSuccess\<close>: nothing without an address with a (non-empty)
  pincode or without the user; otherwise the address is pushed unless a saved one has
  \<open>a.pincode === shippingAddress.pincode && a.houseNo === shippingAddress.houseNo\<close>.
  The pushed entry stores \<open>field || ''\<close> for every field, so an address without a house
  number is stored with the house number \<open>''\<close> and is not found again by the comparison.
\<close>

definition saveAddressToUserOnPaymentSuccess :: "db \<Rightarrow> oid \<Rightarrow> address option \<Rightarrow> db" where
  "saveAddressToUserOnPaymentSuccess d userId shippingAddr =
     (case shippingAddr of
        None \<Rightarrow> d
      | Some a \<Rightarrow>
          if str_or (pincode a) [] = [] then d
          else
            (case users d userId of
               None \<Rightarrow> d
             | Some u \<Rightarrow>
                 (case find (\<lambda>s. pincode s = pincode a \<and> houseNo s = houseNo a) (addresses u) of
                    Some existingAddr \<Rightarrow> d
                  | None \<Rightarrow>
                      d\<lparr>users := (users d)(userId \<mapsto>
                          u\<lparr>addresses := addresses u @
                            [\<lparr> fullName = Some (str_or (fullName a) (str_or (name a) [])),
                               name = None,
                               phone = Some (str_or (phone a) []),
                               houseNo = Some (str_or (houseNo a) []),
                               street = Some (str_or (street a) []),
                               landmark = Some (str_or (landmark a) []),
                               city = Some (str_or (city a) []),
                               state = Some (str_or (state a) []),
                               pincode = Some (str_or (pincode a) []),
                               label = ''Home'', isDefault = (addresses u = []) \<rparr>]\<rparr>)\<rparr>)))"

text \<open>\<open>Cart.findOneAndUpdate({user}, {items: []})\<close>: no cart is created when none exists.\<close>

definition clear_cart :: "db \<Rightarrow> oid \<Rightarrow> db" where
  "clear_cart d userId =
     (case carts d userId of
        None \<Rightarrow> d
      | Some cis \<Rightarrow> d\<lparr>carts := (carts d)(userId \<mapsto> [])\<rparr>)"

section \<open>Creating the order from the cart\<close>

text \<open>\<open>const shippingCharge = totalAmount > 999 ? 0 : 49\<close>.\<close>

definition shippingCharge_of :: "int \<Rightarrow> int" where
  "shippingCharge_of subtotal = (if subtotal > 999 then 0 else 49)"

text \<open>
  The enrichment loop of \<open>createOrderFromCart\<close>, with its two accumulators
  \<open>enrichedItems\<close> and \<open>totalAmount\<close>. A catalogue product that is not found throws.
\<close>

fun enrich_loop ::
  "(oid \<Rightarrow> product_doc option) \<Rightarrow> cart_item list \<Rightarrow> item list \<Rightarrow> int \<Rightarrow> error + (item list \<times> int)" where
  "enrich_loop ps [] enrichedItems totalAmt = Inr (enrichedItems, totalAmt)"
| "enrich_loop ps (ci # cis) enrichedItems totalAmt =
     (case c_product ci of
        DemoRef \<Rightarrow>
          enrich_loop ps cis
            (enrichedItems @ [\<lparr> product = None, price = c_price ci, quantity = qty_or_1 (c_quantity ci) \<rparr>])
            (totalAmt + c_price ci * qty_or_1 (c_quantity ci))
      | ProductRef pid \<Rightarrow>
          (case ps pid of
             None \<Rightarrow> Inl (ProductNotFound pid)
           | Some pr \<Rightarrow>
               enrich_loop ps cis
                 (enrichedItems @ [\<lparr> product = Some pid,
                      price = (if c_price ci = 0 then prod_price pr else c_price ci),
                      quantity = qty_or_1 (c_quantity ci) \<rparr>])
                 (totalAmt + (if c_price ci = 0 then prod_price pr else c_price ci) * qty_or_1 (c_quantity ci)))
      | NoRef \<Rightarrow>
          enrich_loop ps cis
            (enrichedItems @ [\<lparr> product = None, price = c_price ci, quantity = qty_or_1 (c_quantity ci) \<rparr>])
            (totalAmt + c_price ci * qty_or_1 (c_quantity ci)))"

record paymentDetails =
  pd_paymentId :: "string option"
  pd_razorpayOrderId :: "string option"
  pd_razorpaySignature :: "string option"
  pd_paymentMethod :: "string option"
  pd_shippingAddress :: "address option"

text \<open>
  The document \<open>new Order({...})\<close> of \<open>createOrderFromCart\<close>, from the enriched items
  and their subtotal: the shipping charge is added to the total, the order is born paid.
  Its number is assigned when it is saved.
\<close>

definition cart_order :: "oid \<Rightarrow> paymentDetails \<Rightarrow> item list \<Rightarrow> int \<Rightarrow> order" where
  "cart_order userId pd enrichedItems subtotal =
     \<lparr> user = userId, orderNumber = 0, items = enrichedItems,
        totalAmount = subtotal + shippingCharge_of subtotal,
        shippingCharge = shippingCharge_of subtotal,
        status = ''PAID'',
        paymentMethod = str_or (pd_paymentMethod pd) ''Razorpay'',
        paymentStatus = ''Paid'',
        paymentId = pd_paymentId pd,
        razorpayOrderId = pd_razorpayOrderId pd,
        razorpaySignature = pd_razorpaySignature pd,
        shippingAddress = pd_shippingAddress pd,
        stockReduced = False,
        statusHistory = [(''PAID'', ''Order created after payment verification'')],
        invoicePath = None, invoiceUrl = None \<rparr>"

text \<open>The payment data \<open>createOrderFromCart\<close> records for the order \<open>i\<close>.\<close>

definition cart_paymentData :: "oid \<Rightarrow> oid \<Rightarrow> paymentDetails \<Rightarrow> int \<Rightarrow> paymentData" where
  "cart_paymentData i userId pd totalAmt =
     \<lparr> pdat_paymentId = pd_paymentId pd,
        pdat_razorpayOrderId = pd_razorpayOrderId pd,
        pdat_razorpaySignature = pd_razorpaySignature pd,
        pdat_orderId = Some i,
        pdat_userId = Some userId,
        pdat_amount = totalAmt,
        pdat_method = Some (if pd_paymentMethod pd = Some ''UPI'' then ''UPI'' else ''Card''),
        pdat_status = Some ''PAID'' \<rparr>"

text \<open>
  \<open>createOrderFromCart\<close>. It throws before any write when the cart is empty, a product
  is missing or the order cannot be saved. After the order is saved it reduces stock,
  records the payment, attaches the invoice (an error of the PDF controller is thrown on,
  after the order, the stock and the payment were written) and clears the cart. The SMS
  notification is caught and writes nothing modelled here.
\<close>

definition createOrderFromCart :: "env \<Rightarrow> db \<Rightarrow> oid \<Rightarrow> paymentDetails \<Rightarrow> (error + oid) \<times> db" where
  "createOrderFromCart e d userId pd =
     (case carts d userId of
        None \<Rightarrow> (Inl CartEmpty, d)
      | Some cis \<Rightarrow>
          if cis = [] then (Inl CartEmpty, d)
          else
            (case enrich_loop (products d) cis [] 0 of
               Inl err \<Rightarrow> (Inl err, d)
             | Inr (enrichedItems, subtotal) \<Rightarrow>
                 (case Order_insert d (cart_order userId pd enrichedItems subtotal) of
                    Inl err \<Rightarrow> (Inl err, d)
                  | Inr (i, d1) \<Rightarrow>
                      (let d2 = snd (reduceStockAfterPayment d1 i);
                           d3 = snd (createPaymentRecord d2
                                  (cart_paymentData i userId pd (subtotal + shippingCharge_of subtotal)))
                       in case Order_findById d3 i of
                            None \<Rightarrow> (Inl OrderNotFound, d3)
                          | Some od \<Rightarrow>
                              (case generateAndSaveInvoice e od of
                                 None \<Rightarrow> (Inl InvoiceError, d3)
                               | Some (path, url) \<Rightarrow>
                                   (case Order_save d3 i (od\<lparr>invoicePath := Some path, invoiceUrl := Some url\<rparr>) of
                                      Inl err \<Rightarrow> (Inl err, d3)
                                    | Inr d4 \<Rightarrow> (Inr i, clear_cart d4 userId)))))))"

section \<open>Payment verifier\<close>

text \<open>A value inside a template literal: \<open>undefined\<close> prints as "undefined".\<close>

definition js_str :: "string option \<Rightarrow> string" where
  "js_str x = (case x of None \<Rightarrow> ''undefined'' | Some s \<Rightarrow> s)"

text \<open>
  The expected signature of both verify routes: HMAC-SHA256, keyed with
  \<open>RAZORPAY_KEY_SECRET || 'placeholder'\<close>, of \<open>"{orderId}|{paymentId}"\<close>.
\<close>

definition expectedSignature :: "env \<Rightarrow> string option \<Rightarrow> string option \<Rightarrow> string" where
  "expectedSignature e razorpay_order_id razorpay_payment_id =
     hmac_sha256 e (str_or (RAZORPAY_KEY_SECRET e) ''placeholder'')
       (js_str razorpay_order_id @ ''|'' @ js_str razorpay_payment_id)"

section \<open>Routes of \<open>routes/payment.js\<close>\<close>

text \<open>
  \<open>POST /verify\<close> for the authenticated user \<open>uid\<close>. The idempotency check comes
  first, then the signature, then the order is created from the cart. Any exception is
  answered with status 500 (the two \<open>OrderNotFound\<close> branches stand for the TypeError of
  reading a field of \<open>null\<close>; the guard and the insert rule them out).
\<close>

definition verify ::
  "env \<Rightarrow> db \<Rightarrow> oid \<Rightarrow> string option \<Rightarrow> string option \<Rightarrow> string option \<Rightarrow> address option
     \<Rightarrow> response \<times> db" where
  "verify e d uid razorpay_order_id razorpay_payment_id razorpay_signature shippingAddr =
     (if isPaymentAlreadyProcessed d razorpay_payment_id then
        (case Order_findOne_paymentId d razorpay_payment_id of
           None \<Rightarrow> (Failure 500 OrderNotFound, d)
         | Some (i, existingOrder) \<Rightarrow>
             (Success ''Payment already processed'' i (orderNumber existingOrder), d))
      else if razorpay_signature \<noteq> Some (expectedSignature e razorpay_order_id razorpay_payment_id)
        then (Failure 400 InvalidSignature, d)
      else
        (case createOrderFromCart e d uid
                \<lparr> pd_paymentId = razorpay_payment_id,
                   pd_razorpayOrderId = razorpay_order_id,
                   pd_razorpaySignature = razorpay_signature,
                   pd_paymentMethod = Some ''Razorpay'',
                   pd_shippingAddress = shippingAddr \<rparr> of
           (Inl err, d1) \<Rightarrow> (Failure 500 err, d1)
         | (Inr i, d1) \<Rightarrow>
             (let d2 = saveAddressToUserOnPaymentSuccess d1 uid shippingAddr in
              case Order_findById d2 i of
                None \<Rightarrow> (Failure 500 OrderNotFound, d2)
              | Some od \<Rightarrow> (Success ''Payment verified & order created'' i (orderNumber od), d2))))"

text \<open>
  \<open>POST /cod\<close> for the authenticated user \<open>uid\<close>. An error of the invoice step is
  caught; the address is saved and the cart cleared in any case.
\<close>

definition cod :: "env \<Rightarrow> db \<Rightarrow> oid \<Rightarrow> oid option \<Rightarrow> response \<times> db" where
  "cod e d uid orderId =
     (case orderId of
        None \<Rightarrow> (Failure 400 OrderIdRequired, d)
      | Some i \<Rightarrow>
          (case Order_findById d i of
             None \<Rightarrow> (Failure 404 OrderNotFound, d)
           | Some od \<Rightarrow>
               if user od \<noteq> uid then (Failure 403 Unauthorized, d)
               else if totalAmount od > 5000 then (Failure 400 CODLimitExceeded, d)
               else
                 (let od1 = od\<lparr> paymentMethod := ''COD'', paymentStatus := ''Pending'',
                                status := ''PLACED'',
                                statusHistory := statusHistory od @
                                  [(''PLACED'', ''Cash on Delivery order placed'')] \<rparr>
                  in case Order_save d i od1 of
                       Inl err \<Rightarrow> (Failure 500 err, d)
                     | Inr d1 \<Rightarrow>
                         (let d2 = (case generateAndSaveInvoice e od1 of
                                      None \<Rightarrow> d1
                                    | Some (path, url) \<Rightarrow>
                                        (case Order_save d1 i (od1\<lparr>invoicePath := Some path, invoiceUrl := Some url\<rparr>) of
                                           Inl err \<Rightarrow> d1
                                         | Inr d1' \<Rightarrow> d1'));
                              d3 = saveAddressToUserOnPaymentSuccess d2 uid (shippingAddress od1);
                              d4 = clear_cart d3 uid
                          in (Success ''COD order placed successfully'' i (orderNumber od1), d4)))))"

text \<open>
  \<open>POST /verify-upi\<close> (an order that already exists, "Buy Now"). A signature that does
  not match is recorded as a FAILED payment of amount 0 before the route answers 400.
\<close>

definition verify_upi ::
  "env \<Rightarrow> db \<Rightarrow> oid \<Rightarrow> string option \<Rightarrow> string option \<Rightarrow> string option \<Rightarrow> oid
     \<Rightarrow> response \<times> db" where
  "verify_upi e d uid razorpay_order_id razorpay_payment_id razorpay_signature orderId =
     (if isPaymentAlreadyProcessed d razorpay_payment_id then
        (case Order_findOne_paymentId d razorpay_payment_id of
           None \<Rightarrow> (Failure 500 OrderNotFound, d)
         | Some (i, existingOrder) \<Rightarrow>
             (Success ''Payment already verified'' i (orderNumber existingOrder), d))
      else if razorpay_signature \<noteq> Some (expectedSignature e razorpay_order_id razorpay_payment_id)
        then
          (Failure 400 InvalidSignature,
           snd (createPaymentRecord d
                  \<lparr> pdat_paymentId = razorpay_payment_id,
                     pdat_razorpayOrderId = razorpay_order_id,
                     pdat_razorpaySignature = None,
                     pdat_orderId = Some orderId,
                     pdat_userId = Some uid,
                     pdat_amount = 0,
                     pdat_method = None,
                     pdat_status = Some ''FAILED'' \<rparr>))
      else
        (case Order_findById d orderId of
           None \<Rightarrow> (Failure 404 OrderNotFound, d)
         | Some od \<Rightarrow>
             if paymentStatus od = ''Paid''
             then (Success ''Order already paid'' orderId (orderNumber od), d)
             else
               (case Order_save d orderId
                       (od\<lparr> paymentStatus := ''Paid'', paymentId := razorpay_payment_id,
                            razorpaySignature := razorpay_signature, paymentMethod := ''UPI'',
                            status := ''PAID'',
                            statusHistory := statusHistory od @
                              [(''PAID'', ''Payment verified via Razorpay UPI'')] \<rparr>) of
                  Inl err \<Rightarrow> (Failure 500 err, d)
                | Inr d1 \<Rightarrow>
                    (let d2 = snd (reduceStockAfterPayment d1 orderId);
                         d3 = snd (createPaymentRecord d2
                                \<lparr> pdat_paymentId = razorpay_payment_id,
                                   pdat_razorpayOrderId = razorpay_order_id,
                                   pdat_razorpaySignature = razorpay_signature,
                                   pdat_orderId = Some orderId,
                                   pdat_userId = Some uid,
                                   pdat_amount = totalAmount od,
                                   pdat_method = Some ''UPI'',
                                   pdat_status = Some ''PAID'' \<rparr>);
                         d4 = saveAddressToUserOnPaymentSuccess d3 uid (shippingAddress od)
                     in case Order_findById d4 orderId of
                          None \<Rightarrow> (Failure 500 OrderNotFound, d4)
                        | Some od4 \<Rightarrow>
                            (let d5 = (case generateAndSaveInvoice e od4 of
                                         None \<Rightarrow> d4
                                       | Some (path, url) \<Rightarrow>
                                           (case Order_save d4 orderId (od4\<lparr>invoicePath := Some path, invoiceUrl := Some url\<rparr>) of
                                              Inl err \<Rightarrow> d4
                                            | Inr d4' \<Rightarrow> d4'))
                             in (Success ''Payment verified successfully'' orderId (orderNumber od4), d5))))))"

text \<open>
  The webhook's request: the signature header, \<open>JSON.stringify(req.body)\<close>, the event
  name and \<open>payload.payment.entity\<close> with the notes the checkout put there. An address
  in the notes that is absent or does not parse is \<open>None\<close>.
\<close>

record webhook_payment =
  wp_id :: "string option"
  wp_order_id :: "string option"
  notes_userId :: "oid option"
  notes_orderId :: "oid option"
  notes_shippingAddress :: "address option"

record webhook_req =
  x_razorpay_signature :: "string option"
  body_json :: string
  event :: string
  payment_entity :: "webhook_payment option"

text \<open>The empty object \<open>{}\<close> as an address.\<close>

definition empty_address :: address where
  "empty_address = \<lparr> fullName = None, name = None, phone = None, houseNo = None, street = None,
                       landmark = None, city = None, state = None, pincode = None \<rparr>"

text \<open>
  The secret of the webhook:
  \<open>RAZORPAY_WEBHOOK_SECRET || RAZORPAY_KEY_SECRET || 'placeholder'\<close>.
\<close>

definition webhook_secret :: "env \<Rightarrow> string" where
  "webhook_secret e = str_or (RAZORPAY_WEBHOOK_SECRET e) (str_or (RAZORPAY_KEY_SECRET e) ''placeholder'')"

text \<open>
  \<open>POST /webhook\<close>. The signature covers the whole body. For \<open>payment.captured\<close> the
  idempotency check comes next; then an order named in the notes is updated (case 1), or
  an order is created from the cart of the user named in the notes (case 2). Errors of
  either case are caught and logged, and the answer is \<open>{received: true}\<close>.
\<close>

definition webhook :: "env \<Rightarrow> db \<Rightarrow> webhook_req \<Rightarrow> response \<times> db" where
  "webhook e d req =
     (if x_razorpay_signature req \<noteq> Some (hmac_sha256 e (webhook_secret e) (body_json req))
        then (Failure 400 InvalidWebhookSignature, d)
      else
        (case payment_entity req of
           None \<Rightarrow> (Received None, d)
         | Some pay \<Rightarrow>
             if event req \<noteq> ''payment.captured'' then (Received None, d)
             else if isPaymentAlreadyProcessed d (wp_id pay) then (Received (Some ''already_processed''), d)
             else
               (case notes_orderId pay of
                  Some orderId \<Rightarrow>
                    (case Order_findById d orderId of
                       None \<Rightarrow> (Received None, d)
                     | Some od \<Rightarrow>
                         if paymentStatus od = ''Paid'' then (Received None, d)
                         else
                           (case Order_save d orderId
                                   (od\<lparr> paymentStatus := ''Paid'', paymentId := wp_id pay,
                                        paymentMethod := ''UPI'', status := ''Placed'',
                                        statusHistory := statusHistory od @
                                          [(''Placed'', ''Payment confirmed via webhook'')] \<rparr>) of
                              Inl err \<Rightarrow> (Received None, d)
                            | Inr d1 \<Rightarrow>
                                (case notes_userId pay of
                                   None \<Rightarrow> (Received None, d1)
                                 | Some userId \<Rightarrow>
                                     (Received None,
                                      saveAddressToUserOnPaymentSuccess d1 userId (shippingAddress od)))))
                | None \<Rightarrow>
                    (case notes_userId pay of
                       None \<Rightarrow> (Received None, d)
                     | Some userId \<Rightarrow>
                         (let shippingAddr =
                                (case notes_shippingAddress pay of None \<Rightarrow> empty_address | Some a \<Rightarrow> a)
                          in case createOrderFromCart e d userId
                                    \<lparr> pd_paymentId = wp_id pay,
                                       pd_razorpayOrderId = wp_order_id pay,
                                       pd_razorpaySignature = None,
                                       pd_paymentMethod = Some ''Razorpay'',
                                       pd_shippingAddress = Some shippingAddr \<rparr> of
                               (Inl err, d1) \<Rightarrow> (Received None, d1)
                             | (Inr i, d1) \<Rightarrow>
                                 (Received None,
                                  saveAddressToUserOnPaymentSuccess d1 userId (Some shippingAddr)))))))"

section \<open>Transactions (\<open>utils/transactions.js\<close>)\<close>

text \<open>
  \<open>withTransaction\<close>: up to \<open>maxRetries\<close> attempts. An attempt that throws is aborted
  (its writes are dropped); it is retried when the error is transient and attempts are
  left, and thrown on otherwise.
\<close>

definition isTransient :: "error \<Rightarrow> bool" where
  "isTransient err = (err = MongoError 251 \<or> err = MongoError 112 \<or> err = MongoError 244)"

fun run_attempts :: "nat \<Rightarrow> (db \<Rightarrow> error + ('a \<times> db)) \<Rightarrow> db \<Rightarrow> (error + 'a) \<times> db" where
  "run_attempts 0 fn d = (Inl NoAttempt, d)"
| "run_attempts (Suc n) fn d =
     (case fn d of
        Inr (result, d') \<Rightarrow> (Inr result, d')
      | Inl err \<Rightarrow> if isTransient err \<and> 0 < n then run_attempts n fn d else (Inl err, d))"

definition withTransaction :: "(db \<Rightarrow> error + ('a \<times> db)) \<Rightarrow> db \<Rightarrow> (error + 'a) \<times> db" where
  "withTransaction fn d = run_attempts 3 fn d"

text \<open>
  The stock loop of \<open>executePaymentTransaction\<close>: one conditional update per item,
  \<open>updateOne({_id, stock: {$gte: q}}, {$inc: {stock: -q}})\<close>; an item whose product has
  too little stock (or is missing) is logged and skipped.
\<close>

fun conditional_reduce_loop :: "(oid \<Rightarrow> product_doc option) \<Rightarrow> item list \<Rightarrow> (oid \<Rightarrow> product_doc option)" where
  "conditional_reduce_loop ps [] = ps"
| "conditional_reduce_loop ps (it # its) =
     (case product it of
        None \<Rightarrow> conditional_reduce_loop ps its
      | Some pid \<Rightarrow>
          (case ps pid of
             None \<Rightarrow> conditional_reduce_loop ps its
           | Some pr \<Rightarrow>
               if stock pr \<ge> qty_or_1 (quantity it)
               then conditional_reduce_loop (ps(pid \<mapsto> pr\<lparr>stock := stock pr - qty_or_1 (quantity it)\<rparr>)) its
               else conditional_reduce_loop ps its))"

text \<open>
  \<open>executePaymentTransaction({order, paymentData, reduceStock})\<close> on the order \<open>i\<close>.
  No route calls it.
\<close>

definition executePaymentTransaction_body ::
  "oid \<Rightarrow> paymentData \<Rightarrow> bool \<Rightarrow> db \<Rightarrow> error + ((oid \<times> payment option) \<times> db)" where
  "executePaymentTransaction_body i pdat reduceStock d =
     (case Order_findById d i of
        None \<Rightarrow> Inl OrderNotFound
      | Some od \<Rightarrow>
          (let od1 = od\<lparr> paymentStatus := ''Paid'', status := ''PAID'',
                         paymentId := pdat_paymentId pdat,
                         razorpayOrderId := pdat_razorpayOrderId pdat,
                         razorpaySignature := pdat_razorpaySignature pdat,
                         paymentMethod := str_or (pdat_method pdat) ''Razorpay'',
                         statusHistory := statusHistory od @
                           [(''PAID'', ''Payment verified via transaction'')] \<rparr>
           in case Order_save d i od1 of
                Inl err \<Rightarrow> Inl err
              | Inr d1 \<Rightarrow>
                  (case (if reduceStock \<and> \<not> stockReduced od1 \<and> items od1 \<noteq> []
                         then Order_save (d1\<lparr>products := conditional_reduce_loop (products d1) (items od1)\<rparr>)
                                i (od1\<lparr>stockReduced := True\<rparr>)
                         else Inr d1) of
                     Inl err \<Rightarrow> Inl err
                   | Inr d2 \<Rightarrow>
                       (let p = \<lparr> razorpayPaymentId = pdat_paymentId pdat,
                                  pay_razorpayOrderId = pdat_razorpayOrderId pdat,
                                  pay_razorpaySignature = pdat_razorpaySignature pdat,
                                  pay_order = Some i,
                                  pay_user = Some (user od1),
                                  amount = totalAmount od1,
                                  pay_method = str_or (pdat_method pdat) ''UPI'',
                                  pay_status = ''PAID'' \<rparr>
                        in case Payment_save d2 p of
                             Inr d3 \<Rightarrow> Inr ((i, Some p), d3)
                           | Inl err \<Rightarrow>
                               if err = MongoError 11000 then Inr ((i, None), d2) else Inl err))))"

definition executePaymentTransaction ::
  "db \<Rightarrow> oid \<Rightarrow> paymentData \<Rightarrow> bool \<Rightarrow> (error + (oid \<times> payment option)) \<times> db" where
  "executePaymentTransaction d i pdat reduceStock =
     withTransaction (executePaymentTransaction_body i pdat reduceStock) d"

text \<open>
  The restore loop of \<open>cancelOrderWithStockRestore\<close>: an unconditional
  \<open>updateOne({_id}, {$inc: {stock: q}})\<close> per item with a product.
\<close>

fun restore_loop :: "(oid \<Rightarrow> product_doc option) \<Rightarrow> item list \<Rightarrow> (oid \<Rightarrow> product_doc option)" where
  "restore_loop ps [] = ps"
| "restore_loop ps (it # its) =
     (case product it of
        None \<Rightarrow> restore_loop ps its
      | Some pid \<Rightarrow>
          (case ps pid of
             None \<Rightarrow> restore_loop ps its
           | Some pr \<Rightarrow> restore_loop (ps(pid \<mapsto> pr\<lparr>stock := stock pr + qty_or_1 (quantity it)\<rparr>)) its))"

definition cancelOrderWithStockRestore_body :: "oid \<Rightarrow> string \<Rightarrow> db \<Rightarrow> error + (oid \<times> db)" where
  "cancelOrderWithStockRestore_body orderId reason d =
     (case Order_findById d orderId of
        None \<Rightarrow> Inl OrderNotFound
      | Some od \<Rightarrow>
          if status od = ''CANCELLED'' then Inl AlreadyCancelled
          else
            (let d1 = (if stockReduced od \<and> items od \<noteq> []
                       then d\<lparr>products := restore_loop (products d) (items od)\<rparr>
                       else d)
             in case Order_save d1 orderId
                       (od\<lparr> status := ''CANCELLED'',
                            statusHistory := statusHistory od @
                              [(''CANCELLED'', if reason = [] then ''Order cancelled'' else reason)] \<rparr>) of
                  Inl err \<Rightarrow> Inl err
                | Inr d2 \<Rightarrow> Inr (orderId, d2)))"

definition cancelOrderWithStockRestore :: "db \<Rightarrow> oid \<Rightarrow> string \<Rightarrow> (error + oid) \<times> db" where
  "cancelOrderWithStockRestore d orderId reason =
     withTransaction (cancelOrderWithStockRestore_body orderId reason) d"

section \<open>Routes of \<open>routes/orders.js\<close>\<close>

text \<open>
  \<open>PUT /:id/cancel\<close> for the authenticated user \<open>uid\<close>, an administrator when
  \<open>isAdmin\<close>.
\<close>

definition cancel :: "db \<Rightarrow> oid \<Rightarrow> bool \<Rightarrow> oid \<Rightarrow> string \<Rightarrow> response \<times> db" where
  "cancel d uid isAdmin i reason =
     (case Order_findById d i of
        None \<Rightarrow> (Failure 404 OrderNotFound, d)
      | Some od \<Rightarrow>
          if user od \<noteq> uid \<and> \<not> isAdmin then (Failure 403 AccessDenied, d)
          else if status od \<in> set [''SHIPPED'', ''DELIVERED''] then (Failure 400 IllegalTransition, d)
          else
            (case cancelOrderWithStockRestore d i
                    (if reason = [] then ''Cancelled by '' @ (if isAdmin then ''admin'' else ''user'') else reason) of
               (Inl err, d1) \<Rightarrow> (Failure 500 err, d1)
             | (Inr j, d1) \<Rightarrow> (OrderJson j, d1)))"

text \<open>
  \<open>PUT /:id/status\<close> (administrators only): the status of the request is stored as it
  is, the payment status too when the request has one.
\<close>

definition update_status :: "db \<Rightarrow> oid \<Rightarrow> string \<Rightarrow> string \<Rightarrow> string option \<Rightarrow> response \<times> db" where
  "update_status d i newStatus note newPaymentStatus =
     (case Order_findById d i of
        None \<Rightarrow> (Failure 404 OrderNotFound, d)
      | Some od \<Rightarrow>
          (case Order_save d i
                  (od\<lparr> status := newStatus,
                       paymentStatus := str_or newPaymentStatus (paymentStatus od),
                       statusHistory := statusHistory od @ [(newStatus, note)] \<rparr>) of
             Inl err \<Rightarrow> (Failure 500 err, d)
           | Inr d1 \<Rightarrow> (OrderJson i, d1)))"

section \<open>The specification's notions\<close>

text \<open>
  The items subtotal of an order, in the specification's words the sum of the line-item
  subtotals (unit price times quantity).
\<close>

definition items_subtotal :: "item list \<Rightarrow> int" where
  "items_subtotal its = sum_list (map (\<lambda>it. price it * quantity it) its)"

text \<open>
  The order state machine of the specification (section 4.4):
  CREATED to PENDING, PAID or PLACED; those to SHIPPED; SHIPPED to DELIVERED; CANCELLED
  from any non-terminal state but SHIPPED. DELIVERED and CANCELLED are terminal.
\<close>

definition legal_successor :: "string \<Rightarrow> string \<Rightarrow> bool" where
  "legal_successor old new =
     ((old = ''CREATED'' \<and> new \<in> set [''PENDING'', ''PAID'', ''PLACED''])
    \<or> (old \<in> set [''PENDING'', ''PAID'', ''PLACED''] \<and> new = ''SHIPPED'')
    \<or> (old = ''SHIPPED'' \<and> new = ''DELIVERED'')
    \<or> (old \<in> set [''CREATED'', ''PENDING'', ''PAID'', ''PLACED''] \<and> new = ''CANCELLED''))"

definition terminal :: "string \<Rightarrow> bool" where
  "terminal st = (st \<in> set [''DELIVERED'', ''CANCELLED''])"

text \<open>
  The quantity an order asks of a product: the sum of \<open>item.quantity || 1\<close> over its
  line items that name the product.
\<close>

definition ordered_quantity :: "item list \<Rightarrow> oid \<Rightarrow> int" where
  "ordered_quantity its pid =
     sum_list (map (\<lambda>it. qty_or_1 (quantity it)) (filter (\<lambda>it. product it = Some pid) its))"

text \<open>
  Stock suffices for an order when, item by item in the order of the stock loop, the
  stock before each decrement is at least the requested quantity (the condition the
  specification puts on a decrement).
\<close>

fun stock_suffices :: "(oid \<Rightarrow> product_doc option) \<Rightarrow> item list \<Rightarrow> bool" where
  "stock_suffices ps [] = True"
| "stock_suffices ps (it # its) =
     (case product it of
        None \<Rightarrow> stock_suffices ps its
      | Some pid \<Rightarrow>
          (case ps pid of
             None \<Rightarrow> stock_suffices ps its
           | Some pr \<Rightarrow>
               qty_or_1 (quantity it) \<le> stock pr
               \<and> stock_suffices (ps(pid \<mapsto> pr\<lparr>stock := stock pr - qty_or_1 (quantity it)\<rparr>)) its))"

text \<open>
  A settlement call is a client verify call (user, external order id, external payment
  id, proof, shipping address) or a webhook delivery; \<open>run_calls\<close> serves a sequence of
  them one after the other.
\<close>

datatype settlement_call =
    ClientVerify oid "string option" "string option" "string option" "address option"
  | WebhookCall webhook_req

fun call_paymentId :: "settlement_call \<Rightarrow> string option" where
  "call_paymentId (ClientVerify uid razorpay_order_id razorpay_payment_id sg addr) = razorpay_payment_id"
| "call_paymentId (WebhookCall req) = (case payment_entity req of None \<Rightarrow> None | Some pay \<Rightarrow> wp_id pay)"

fun serve :: "env \<Rightarrow> db \<Rightarrow> settlement_call \<Rightarrow> response \<times> db" where
  "serve e d (ClientVerify uid razorpay_order_id razorpay_payment_id sg addr) =
     verify e d uid razorpay_order_id razorpay_payment_id sg addr"
| "serve e d (WebhookCall req) = webhook e d req"

fun run_calls :: "env \<Rightarrow> db \<Rightarrow> settlement_call list \<Rightarrow> response list \<times> db" where
  "run_calls e d [] = ([], d)"
| "run_calls e d (c # cs) =
     (case serve e d c of
        (r, d1) \<Rightarrow> (case run_calls e d1 cs of (rs, d2) \<Rightarrow> (r # rs, d2)))"

text \<open>
  The order number a call's answer carries once the payment is settled by order number
  \<open>n\<close>: a verify call answers with \<open>n\<close>, the webhook with a bare acknowledgement.
\<close>

fun answered_orderNumber :: "nat \<Rightarrow> settlement_call \<Rightarrow> nat option" where
  "answered_orderNumber n (ClientVerify uid razorpay_order_id razorpay_payment_id sg addr) = Some n"
| "answered_orderNumber n (WebhookCall req) = None"

text \<open>
  A settlement call carries a valid proof when, for a verify call, its signature is the
  expected one for its external order id and payment id and, for a webhook delivery, the
  signature header is the keyed hash of the body and the event is \<open>payment.captured\<close>.
\<close>

fun valid_proof :: "env \<Rightarrow> settlement_call \<Rightarrow> bool" where
  "valid_proof e (ClientVerify uid razorpay_order_id razorpay_payment_id sg addr) =
     (sg = Some (expectedSignature e razorpay_order_id razorpay_payment_id))"
| "valid_proof e (WebhookCall req) =
     (x_razorpay_signature req = Some (hmac_sha256 e (webhook_secret e) (body_json req))
      \<and> event req = ''payment.captured'')"

text \<open>
  The user whose cart a settlement call checks out: the authenticated user of a verify
  call, the user named in the notes of a webhook delivery. A delivery that names an
  existing order (a "Buy Now" payment) or no user checks out no cart.
\<close>

fun checkout_user :: "settlement_call \<Rightarrow> oid option" where
  "checkout_user (ClientVerify uid razorpay_order_id razorpay_payment_id sg addr) = Some uid"
| "checkout_user (WebhookCall req) =
     (case payment_entity req of
        None \<Rightarrow> None
      | Some pay \<Rightarrow> (case notes_orderId pay of Some orderId \<Rightarrow> None | None \<Rightarrow> notes_userId pay))"

text \<open>A cart line can be turned into an order line: it names no catalogue product or one that exists.\<close>

definition product_found :: "(oid \<Rightarrow> product_doc option) \<Rightarrow> cart_item \<Rightarrow> bool" where
  "product_found ps ci =
     (case c_product ci of ProductRef pid \<Rightarrow> ps pid \<noteq> None | DemoRef \<Rightarrow> True | NoRef \<Rightarrow> True)"

text \<open>
  The answers to a payment that is settled as the order \<open>i\<close> with the order number \<open>n\<close>:
  \<open>created_answer\<close> is the answer of the call that creates the order, \<open>replay_answer\<close> the
  answer of every later call. A verify call is answered with the order and its number,
  a webhook delivery with the acknowledgement \<open>{received: true}\<close>, on a replay
  \<open>{received: true, status: 'already_processed'}\<close>.
\<close>

fun created_answer :: "oid \<Rightarrow> nat \<Rightarrow> settlement_call \<Rightarrow> response" where
  "created_answer i n (ClientVerify uid razorpay_order_id razorpay_payment_id sg addr) =
     Success ''Payment verified & order created'' i n"
| "created_answer i n (WebhookCall req) = Received None"

fun replay_answer :: "oid \<Rightarrow> nat \<Rightarrow> settlement_call \<Rightarrow> response" where
  "replay_answer i n (ClientVerify uid razorpay_order_id razorpay_payment_id sg addr) =
     Success ''Payment already processed'' i n"
| "replay_answer i n (WebhookCall req) = Received (Some ''already_processed'')"

section \<open>Example data\<close>

text \<open>
  A stand-in for the keyed hash, an environment, and a small database: user 7 has a cart
  of two units of product 3 (price 600, stock 2) and three orders: one freshly created for
  five units, one delivered for ten and one placed for a single unit; user 8 has a cart
  worth exactly 999, user 9 a cart of five units of product 3.
\<close>

definition toy_hmac :: "string \<Rightarrow> string \<Rightarrow> string" where
  "toy_hmac key msg = key @ ''#'' @ msg"

definition ex_env :: env where
  "ex_env = \<lparr> hmac_sha256 = toy_hmac, RAZORPAY_KEY_SECRET = Some ''k'',
               RAZORPAY_WEBHOOK_SECRET = None,
               generateAndSaveInvoice = (\<lambda>od. Some (''invoice.pdf'', ''/invoice.pdf'')) \<rparr>"

definition ex_order :: "int \<Rightarrow> nat \<Rightarrow> string \<Rightarrow> order" where
  "ex_order q n st =
     \<lparr> user = 7, orderNumber = n, items = [\<lparr> product = Some 3, price = 600, quantity = q \<rparr>],
        totalAmount = 600 * q, shippingCharge = 0, status = st,
        paymentMethod = ''Pending'', paymentStatus = ''Pending'', paymentId = None,
        razorpayOrderId = None, razorpaySignature = None, shippingAddress = None,
        stockReduced = False, statusHistory = [(st, ''Order created, awaiting payment'')],
        invoicePath = None, invoiceUrl = None \<rparr>"

definition ex_db :: db where
  "ex_db = \<lparr> orders = [ex_order 5 1 ''CREATED'', ex_order 10 2 ''DELIVERED'', ex_order 1 3 ''PLACED''],
              payments = [],
              products = [3 \<mapsto> \<lparr> stock = 2, prod_price = 600 \<rparr>],
              carts = [7 \<mapsto> [\<lparr> c_product = ProductRef 3, c_price = 0, c_quantity = 2 \<rparr>],
                       8 \<mapsto> [\<lparr> c_product = NoRef, c_price = 999, c_quantity = 1 \<rparr>],
                       9 \<mapsto> [\<lparr> c_product = ProductRef 3, c_price = 0, c_quantity = 5 \<rparr>]],
              users = [7 \<mapsto> \<lparr> addresses = [] \<rparr>, 8 \<mapsto> \<lparr> addresses = [] \<rparr>,
                       9 \<mapsto> \<lparr> addresses = [] \<rparr>] \<rparr>"

text \<open>A database in which the payment \<open>pay_1\<close> is settled already, by order number 1.\<close>

definition ex_paid_db :: db where
  "ex_paid_db = \<lparr> orders = [(ex_order 1 1 ''PAID'')\<lparr> paymentStatus := ''Paid'', paymentMethod := ''Razorpay'',
                                  paymentId := Some ''pay_1'', stockReduced := True \<rparr>],
                   payments = [],
                   products = [3 \<mapsto> \<lparr> stock = 2, prod_price = 600 \<rparr>],
                   carts = Map.empty,
                   users = [7 \<mapsto> \<lparr> addresses = [] \<rparr>] \<rparr>"

definition ex_pd :: "string \<Rightarrow> paymentDetails" where
  "ex_pd p = \<lparr> pd_paymentId = Some p, pd_razorpayOrderId = Some ''order_1'',
                pd_razorpaySignature = Some (''k#order_1|'' @ p),
                pd_paymentMethod = Some ''Razorpay'', pd_shippingAddress = None \<rparr>"

definition ex_webhook :: webhook_req where
  "ex_webhook = \<lparr> x_razorpay_signature = Some ''k#body'', body_json = ''body'',
                   event = ''payment.captured'',
                   payment_entity = Some \<lparr> wp_id = Some ''pay_1'', wp_order_id = Some ''order_1'',
                       notes_userId = Some 7, notes_orderId = None, notes_shippingAddress = None \<rparr> \<rparr>"

text \<open>
  The same delivery for a "Buy Now" payment of the existing order 0, the same delivery
  without a user in its notes, a database in which the cart of user 5 names the product
  4 that does not exist, and an environment whose PDF controller throws.
\<close>

definition ex_webhook_buynow :: webhook_req where
  "ex_webhook_buynow = \<lparr> x_razorpay_signature = Some ''k#body'', body_json = ''body'',
                   event = ''payment.captured'',
                   payment_entity = Some \<lparr> wp_id = Some ''pay_1'', wp_order_id = Some ''order_1'',
                       notes_userId = Some 7, notes_orderId = Some 0, notes_shippingAddress = None \<rparr> \<rparr>"

definition ex_webhook_nouser :: webhook_req where
  "ex_webhook_nouser = \<lparr> x_razorpay_signature = Some ''k#body'', body_json = ''body'',
                   event = ''payment.captured'',
                   payment_entity = Some \<lparr> wp_id = Some ''pay_1'', wp_order_id = Some ''order_1'',
                       notes_userId = None, notes_orderId = None, notes_shippingAddress = None \<rparr> \<rparr>"

definition ex_db_missing :: db where
  "ex_db_missing = ex_db\<lparr> carts := [5 \<mapsto> [\<lparr> c_product = ProductRef 4, c_price = 0, c_quantity = 1 \<rparr>]] \<rparr>"

definition ex_env_noinvoice :: env where
  "ex_env_noinvoice = ex_env\<lparr> generateAndSaveInvoice := (\<lambda>od. None) \<rparr>"

section \<open>Auxiliary lemmas\<close>

lemma Order_save_orders:
  "Order_save d i od' = Inr d' \<Longrightarrow> d' = d\<lparr>orders := (orders d)[i := od']\<rparr>"
  by (auto simp: Order_save_def split: if_splits)

lemma Order_save_same_paymentId:
  "Order_findById d i = Some od \<Longrightarrow> paymentId od' = paymentId od \<Longrightarrow> Order_valid od'
     \<Longrightarrow> Order_save d i od' = Inr (d\<lparr>orders := (orders d)[i := od']\<rparr>)"
  by (simp add: Order_save_def)

lemma Order_findById_Some_iff:
  "Order_findById d i = Some od \<longleftrightarrow> i < length (orders d) \<and> orders d ! i = od"
  by (auto simp: Order_findById_def)

lemma saveAddress_frame [simp]:
  "orders (saveAddressToUserOnPaymentSuccess d u a) = orders d"
  "payments (saveAddressToUserOnPaymentSuccess d u a) = payments d"
  "products (saveAddressToUserOnPaymentSuccess d u a) = products d"
  "carts (saveAddressToUserOnPaymentSuccess d u a) = carts d"
  "v \<noteq> u \<Longrightarrow> users (saveAddressToUserOnPaymentSuccess d u a) v = users d v"
  by (auto simp: saveAddressToUserOnPaymentSuccess_def split: option.splits)

lemma clear_cart_frame [simp]:
  "orders (clear_cart d u) = orders d"
  "payments (clear_cart d u) = payments d"
  "products (clear_cart d u) = products d"
  "users (clear_cart d u) = users d"
  "v \<noteq> u \<Longrightarrow> carts (clear_cart d u) v = carts d v"
  "carts (clear_cart d u) u = (case carts d u of None \<Rightarrow> None | Some cis \<Rightarrow> Some [])"
  by (auto simp: clear_cart_def split: option.splits)

lemma Order_valid_cod [simp]:
  "Order_valid (od\<lparr>paymentMethod := ''COD'', paymentStatus := ''Pending'', status := ''PLACED'', statusHistory := h\<rparr>)"
  by (simp add: Order_valid_def status_enum_def paymentMethod_enum_def paymentStatus_enum_def)

lemma Order_valid_invoice [simp]:
  "Order_valid (od\<lparr>invoicePath := a, invoiceUrl := b\<rparr>) = Order_valid od"
  by (simp add: Order_valid_def)

lemma cod_accepts:
  fixes e :: env and d :: db and od :: order
  assumes f: "Order_findById d i = Some od" and own: "user od = uid" and le: "totalAmount od \<le> 5000"
  defines "od1 \<equiv> od\<lparr> paymentMethod := ''COD'', paymentStatus := ''Pending'', status := ''PLACED'',
       statusHistory := statusHistory od @ [(''PLACED'', ''Cash on Delivery order placed'')] \<rparr>"
  defines "odF \<equiv> (case generateAndSaveInvoice e od1 of None \<Rightarrow> od1
                    | Some (path, url) \<Rightarrow> od1\<lparr>invoicePath := Some path, invoiceUrl := Some url\<rparr>)"
  shows "cod e d uid (Some i) =
      (Success ''COD order placed successfully'' i (orderNumber od),
       clear_cart (saveAddressToUserOnPaymentSuccess (d\<lparr>orders := (orders d)[i := odF]\<rparr>) uid (shippingAddress od)) uid)"
proof -
  let ?d1 = "d\<lparr>orders := (orders d)[i := od1]\<rparr>"
  have s1: "Order_save d i od1 = Inr ?d1"
    using f by (intro Order_save_same_paymentId) (simp_all add: od1_def)
  have f1: "Order_findById ?d1 i = Some od1"
    using f by (simp add: Order_findById_def split: if_splits)
  have s2: "Order_save ?d1 i (od1\<lparr>invoicePath := Some path, invoiceUrl := Some url\<rparr>)
              = Inr (d\<lparr>orders := (orders d)[i := od1\<lparr>invoicePath := Some path, invoiceUrl := Some url\<rparr>]\<rparr>)" for path url
    using Order_save_same_paymentId [OF f1, of "od1\<lparr>invoicePath := Some path, invoiceUrl := Some url\<rparr>"]
    by (simp add: od1_def)
  have sa: "shippingAddress od1 = shippingAddress od" and onum: "orderNumber od1 = orderNumber od"
    by (simp_all add: od1_def)
  show ?thesis
    using f own le s1 s2 sa onum
    by (simp add: cod_def Let_def od1_def [symmetric] odF_def split: option.splits)
qed

lemma cod_Success_cases:
  assumes "cod e d uid orderId = (Success m j n, d')"
  shows "orderId = Some j \<and> (\<exists>od. Order_findById d j = Some od \<and> user od = uid \<and> totalAmount od \<le> 5000)"
  using assms
  by (auto simp: cod_def Let_def split: option.splits if_splits sum.splits)

lemma ex_find0: "Order_findById ex_db 0 = Some (ex_order 5 1 ''CREATED'')"
  by (simp add: Order_findById_def ex_db_def)

lemma ex_find1: "Order_findById ex_db (Suc 0) = Some (ex_order 10 2 ''DELIVERED'')"
  by (simp add: Order_findById_def ex_db_def)

lemma items_subtotal_snoc:
  "items_subtotal (its @ [it]) = items_subtotal its + price it * quantity it"
  by (simp add: items_subtotal_def)

lemma enrich_loop_total:
  "enrich_loop ps cis acc t = Inr (its, t') \<Longrightarrow> t' - items_subtotal its = t - items_subtotal acc"
proof (induction cis arbitrary: acc t)
  case Nil
  then show ?case by simp
next
  case (Cons ci cis)
  show ?case
  proof (cases "c_product ci")
    case NoRef
    with Cons.prems Cons.IH [of "acc @ [\<lparr> product = None, price = c_price ci, quantity = qty_or_1 (c_quantity ci) \<rparr>]"
        "t + c_price ci * qty_or_1 (c_quantity ci)"]
    show ?thesis by (simp add: items_subtotal_snoc)
  next
    case DemoRef
    with Cons.prems Cons.IH [of "acc @ [\<lparr> product = None, price = c_price ci, quantity = qty_or_1 (c_quantity ci) \<rparr>]"
        "t + c_price ci * qty_or_1 (c_quantity ci)"]
    show ?thesis by (simp add: items_subtotal_snoc)
  next
    case (ProductRef pid)
    with Cons.prems obtain pr where pr: "ps pid = Some pr"
      by (auto split: option.splits)
    let ?p = "if c_price ci = 0 then prod_price pr else c_price ci"
    from ProductRef pr Cons.prems
      Cons.IH [of "acc @ [\<lparr> product = Some pid, price = ?p, quantity = qty_or_1 (c_quantity ci) \<rparr>]"
        "t + ?p * qty_or_1 (c_quantity ci)"]
    show ?thesis by (simp add: items_subtotal_snoc)
  qed
qed

lemma enrich_loop_subtotal:
  "enrich_loop ps cis [] 0 = Inr (its, sub) \<Longrightarrow> items_subtotal its = sub"
  using enrich_loop_total [of ps cis "[]" 0 its sub] by (simp add: items_subtotal_def)

lemma Order_insert_Inr:
  assumes "Order_insert d od = Inr (i, d1)"
  shows "i = length (orders d)"
    and "d1 = d\<lparr>orders := orders d @ [od\<lparr>orderNumber := Suc (length (orders d))\<rparr>]\<rparr>"
    and "Order_valid od"
    and "paymentId od = None \<or> paymentId od \<notin> set (map paymentId (orders d))"
  using assms by (auto simp: Order_insert_def Let_def Order_valid_def split: if_splits)

lemma reduceStock_exec:
  assumes "Order_findById d i = Some od" and "\<not> stockReduced od" and "Order_valid od"
  shows "reduceStockAfterPayment d i =
           (True, d\<lparr>products := reduce_loop (products d) (items od),
                     orders := (orders d)[i := od\<lparr>stockReduced := True\<rparr>]\<rparr>)"
proof -
  let ?d1 = "d\<lparr>products := reduce_loop (products d) (items od)\<rparr>"
  have f: "Order_findById ?d1 i = Some od"
    using assms(1) by (simp add: Order_findById_Some_iff)
  have v: "Order_valid (od\<lparr>stockReduced := True\<rparr>)"
    using assms(3) by (simp add: Order_valid_def)
  from Order_save_same_paymentId [OF f _ v] assms(1,2) show ?thesis
    by (simp add: reduceStockAfterPayment_def Let_def)
qed

lemma createPaymentRecord_fresh:
  assumes "pdat_paymentId pdat = None \<or> pdat_paymentId pdat \<notin> set (map razorpayPaymentId (payments d))"
    and "str_or (pdat_method pdat) ''UPI'' \<in> set pay_method_enum"
    and "str_or (pdat_status pdat) ''PAID'' \<in> set pay_status_enum"
  shows "\<exists>p. snd (createPaymentRecord d pdat) = d\<lparr>payments := payments d @ [p]\<rparr>
          \<and> razorpayPaymentId p = pdat_paymentId pdat
          \<and> pay_status p = str_or (pdat_status pdat) ''PAID''
          \<and> amount p = pdat_amount pdat"
  using assms by (auto simp: createPaymentRecord_def Payment_save_def Let_def Payment_valid_def)

lemma createPaymentRecord_frame [simp]:
  "orders (snd (createPaymentRecord d pdat)) = orders d"
  "products (snd (createPaymentRecord d pdat)) = products d"
  "carts (snd (createPaymentRecord d pdat)) = carts d"
  "users (snd (createPaymentRecord d pdat)) = users d"
  by (auto simp: createPaymentRecord_def Payment_save_def Let_def)

lemma createOrderFromCart_exec:
  fixes e :: env and d :: db and pd :: paymentDetails
  assumes cart: "carts d u = Some cis" "cis \<noteq> []"
    and en: "enrich_loop (products d) cis [] 0 = Inr (its, sub)"
    and ins: "Order_insert d (cart_order u pd its sub) = Inr (i, d1)"
  defines "odN \<equiv> (cart_order u pd its sub)\<lparr>orderNumber := Suc (length (orders d)), stockReduced := True\<rparr>"
  defines "d3 \<equiv> snd (createPaymentRecord
                        (d\<lparr>products := reduce_loop (products d) its, orders := orders d @ [odN]\<rparr>)
                        (cart_paymentData (length (orders d)) u pd (sub + shippingCharge_of sub)))"
  shows "createOrderFromCart e d u pd =
           (case generateAndSaveInvoice e odN of
              None \<Rightarrow> (Inl InvoiceError, d3)
            | Some (path, url) \<Rightarrow>
                (Inr (length (orders d)),
                 clear_cart (d3\<lparr>orders := orders d @ [odN\<lparr>invoicePath := Some path, invoiceUrl := Some url\<rparr>]\<rparr>) u))"
proof -
  let ?n = "length (orders d)"
  let ?od1 = "(cart_order u pd its sub)\<lparr>orderNumber := Suc ?n\<rparr>"
  note I = Order_insert_Inr [OF ins]
  have i: "i = ?n" by (rule I(1))
  have d1: "d1 = d\<lparr>orders := orders d @ [?od1]\<rparr>" by (rule I(2))
  have v1: "Order_valid ?od1" using I(3) by (simp add: Order_valid_def)
  have f1: "Order_findById d1 ?n = Some ?od1"
    by (simp add: d1 Order_findById_def)
  have nr: "\<not> stockReduced ?od1" by (simp add: cart_order_def)
  have it: "items ?od1 = its" by (simp add: cart_order_def)
  have r: "reduceStockAfterPayment d1 ?n =
             (True, d\<lparr>products := reduce_loop (products d) its, orders := orders d @ [odN]\<rparr>)"
    using reduceStock_exec [OF f1 nr v1] by (simp add: d1 it odN_def)
  have o3: "orders d3 = orders d @ [odN]" by (simp add: d3_def)
  have f3: "Order_findById d3 ?n = Some odN"
    by (simp add: Order_findById_def o3)
  have vN: "Order_valid odN"
    using v1 by (simp add: odN_def Order_valid_def)
  have sv: "Order_save d3 ?n (odN\<lparr>invoicePath := Some path, invoiceUrl := Some url\<rparr>)
             = Inr (d3\<lparr>orders := orders d @ [odN\<lparr>invoicePath := Some path, invoiceUrl := Some url\<rparr>]\<rparr>)" for path url
    using Order_save_same_paymentId [OF f3, of "odN\<lparr>invoicePath := Some path, invoiceUrl := Some url\<rparr>"] vN
    by (simp add: o3)
  show ?thesis
    using cart en ins
    by (simp add: createOrderFromCart_def i r Let_def d3_def [symmetric] f3 sv split: option.splits)
qed

lemma createOrderFromCart_fail:
  assumes "carts d u = None \<or> carts d u = Some []
         \<or> (\<exists>cis err. carts d u = Some cis \<and> enrich_loop (products d) cis [] 0 = Inl err)
         \<or> (\<exists>cis its sub err. carts d u = Some cis \<and> enrich_loop (products d) cis [] 0 = Inr (its, sub)
               \<and> Order_insert d (cart_order u pd its sub) = Inl err)"
  shows "\<exists>err. createOrderFromCart e d u pd = (Inl err, d)"
  using assms by (auto simp: createOrderFromCart_def)

lemma createOrderFromCart_cases:
  obtains (fail) err where "createOrderFromCart e d u pd = (Inl err, d)"
  | (run) cis its sub i d1 where "carts d u = Some cis" "cis \<noteq> []"
      "enrich_loop (products d) cis [] 0 = Inr (its, sub)"
      "Order_insert d (cart_order u pd its sub) = Inr (i, d1)"
proof (cases "carts d u")
  case None
  then show ?thesis using createOrderFromCart_fail [of d u pd e] fail by blast
next
  case (Some cis)
  show ?thesis
  proof (cases "cis = []")
    case True
    with Some show ?thesis using createOrderFromCart_fail [of d u pd e] fail by blast
  next
    case ne: False
    show ?thesis
    proof (cases "enrich_loop (products d) cis [] 0")
      case (Inl err)
      with Some show ?thesis using createOrderFromCart_fail [of d u pd e] fail by blast
    next
      case (Inr r)
      obtain its sub where r: "r = (its, sub)" by (cases r)
      show ?thesis
      proof (cases "Order_insert d (cart_order u pd its sub)")
        case (Inl err)
        with Some Inr r show ?thesis using createOrderFromCart_fail [of d u pd e] fail by blast
      next
        case ok: (Inr x)
        obtain i d1 where "x = (i, d1)" by (cases x)
        with Some ne Inr r ok show ?thesis using run by blast
      qed
    qed
  qed
qed

lemma run_attempts_Inl:
  assumes "fn d = Inl err"
  shows "run_attempts (Suc n) fn d = (Inl err, d)"
proof (induction n)
  case 0
  from assms show ?case by simp
next
  case (Suc n)
  have "run_attempts (Suc (Suc n)) fn d =
          (if isTransient err \<and> 0 < Suc n then run_attempts (Suc n) fn d else (Inl err, d))"
    using assms by (simp del: run_attempts.simps add: run_attempts.simps(2) [of "Suc n"])
  with Suc show ?case by simp
qed

lemma withTransaction_Inl:
  "fn d = Inl err \<Longrightarrow> withTransaction fn d = (Inl err, d)"
  unfolding withTransaction_def numeral_3_eq_3 by (rule run_attempts_Inl)

lemma withTransaction_Inr:
  "fn d = Inr (r, d') \<Longrightarrow> withTransaction fn d = (Inr r, d')"
  by (simp add: withTransaction_def numeral_3_eq_3)

lemma cancel_body_cases:
  assumes f: "Order_findById d i = Some od"
  shows "(status od = ''CANCELLED'' \<longrightarrow> cancelOrderWithStockRestore d i reason = (Inl AlreadyCancelled, d))
       \<and> (status od \<noteq> ''CANCELLED'' \<longrightarrow>
            (\<exists>err. cancelOrderWithStockRestore d i reason = (Inl err, d))
          \<or> cancelOrderWithStockRestore d i reason =
               (Inr i, d\<lparr>products := (if stockReduced od \<and> items od \<noteq> [] then restore_loop (products d) (items od) else products d),
                          orders := (orders d)[i := od\<lparr>status := ''CANCELLED'',
                             statusHistory := statusHistory od @ [(''CANCELLED'', if reason = [] then ''Order cancelled'' else reason)]\<rparr>]\<rparr>))"
proof (intro conjI impI)
  assume "status od = ''CANCELLED''"
  with f have "cancelOrderWithStockRestore_body i reason d = Inl AlreadyCancelled"
    by (simp add: cancelOrderWithStockRestore_body_def)
  then show "cancelOrderWithStockRestore d i reason = (Inl AlreadyCancelled, d)"
    unfolding cancelOrderWithStockRestore_def by (rule withTransaction_Inl)
next
  assume nc: "status od \<noteq> ''CANCELLED''"
  let ?od' = "od\<lparr>status := ''CANCELLED'',
                 statusHistory := statusHistory od @ [(''CANCELLED'', if reason = [] then ''Order cancelled'' else reason)]\<rparr>"
  let ?d1 = "if stockReduced od \<and> items od \<noteq> [] then d\<lparr>products := restore_loop (products d) (items od)\<rparr> else d"
  show "(\<exists>err. cancelOrderWithStockRestore d i reason = (Inl err, d))
          \<or> cancelOrderWithStockRestore d i reason =
               (Inr i, d\<lparr>products := (if stockReduced od \<and> items od \<noteq> [] then restore_loop (products d) (items od) else products d),
                          orders := (orders d)[i := ?od']\<rparr>)"
  proof (cases "Order_save ?d1 i ?od'")
    case (Inl err)
    with f nc have "cancelOrderWithStockRestore_body i reason d = Inl err"
      by (simp add: cancelOrderWithStockRestore_body_def Let_def)
    then have "cancelOrderWithStockRestore d i reason = (Inl err, d)"
      unfolding cancelOrderWithStockRestore_def by (rule withTransaction_Inl)
    then show ?thesis by blast
  next
    case (Inr d2)
    from Order_save_orders [OF Inr] have d2: "d2 = ?d1\<lparr>orders := (orders ?d1)[i := ?od']\<rparr>" .
    from f nc Inr have "cancelOrderWithStockRestore_body i reason d = Inr (i, d2)"
      by (simp add: cancelOrderWithStockRestore_body_def Let_def)
    then have "cancelOrderWithStockRestore d i reason = (Inr i, d2)"
      unfolding cancelOrderWithStockRestore_def by (rule withTransaction_Inr)
    then show ?thesis by (simp add: d2)
  qed
qed

lemma ordered_quantity_Cons:
  "ordered_quantity (it # its) pid =
     (if product it = Some pid then qty_or_1 (quantity it) else 0) + ordered_quantity its pid"
  by (simp add: ordered_quantity_def)

lemma ordered_quantity_Nil [simp]: "ordered_quantity [] pid = 0"
  by (simp add: ordered_quantity_def)

lemma restore_loop_eq:
  "restore_loop ps its pid =
     map_option (\<lambda>pr. pr\<lparr>stock := stock pr + ordered_quantity its pid\<rparr>) (ps pid)"
proof (induction its arbitrary: ps)
  case Nil
  show ?case by (cases "ps pid") simp_all
next
  case (Cons it its)
  show ?case
  proof (cases "product it")
    case None
    then show ?thesis by (simp add: Cons.IH ordered_quantity_Cons)
  next
    case (Some q)
    show ?thesis
    proof (cases "ps q")
      case None
      with Some show ?thesis
        by (cases "q = pid") (simp_all add: Cons.IH ordered_quantity_Cons)
    next
      case (Some pr)
      with \<open>product it = Some q\<close> show ?thesis
        by (cases "q = pid") (simp_all add: Cons.IH ordered_quantity_Cons add.assoc)
    qed
  qed
qed

lemma reduce_loop_eq:
  "stock_suffices ps its \<Longrightarrow>
   reduce_loop ps its pid =
     map_option (\<lambda>pr. pr\<lparr>stock := stock pr - ordered_quantity its pid\<rparr>) (ps pid)"
proof (induction its arbitrary: ps)
  case Nil
  show ?case by (cases "ps pid") simp_all
next
  case (Cons it its)
  show ?case
  proof (cases "product it")
    case None
    with Cons.prems have "stock_suffices ps its" by simp
    with None show ?thesis by (simp add: Cons.IH ordered_quantity_Cons)
  next
    case (Some q)
    show ?thesis
    proof (cases "ps q")
      case None
      with Some Cons.prems have "stock_suffices ps its" by simp
      with None Some show ?thesis
        by (cases "q = pid") (simp_all add: Cons.IH ordered_quantity_Cons)
    next
      case (Some pr)
      let ?ps' = "ps(q \<mapsto> pr\<lparr>stock := stock pr - qty_or_1 (quantity it)\<rparr>)"
      from Some \<open>product it = Some q\<close> Cons.prems
      have le: "qty_or_1 (quantity it) \<le> stock pr" and suf: "stock_suffices ?ps' its"
        by simp_all
      from le have mx: "max 0 (stock pr - qty_or_1 (quantity it)) = stock pr - qty_or_1 (quantity it)"
        by simp
      from Some \<open>product it = Some q\<close> have "reduce_loop ps (it # its) pid = reduce_loop ?ps' its pid"
        by (simp add: mx)
      also have "\<dots> = map_option (\<lambda>pr. pr\<lparr>stock := stock pr - ordered_quantity its pid\<rparr>) (?ps' pid)"
        by (rule Cons.IH [OF suf])
      also have "\<dots> = map_option (\<lambda>pr. pr\<lparr>stock := stock pr - ordered_quantity (it # its) pid\<rparr>) (ps pid)"
        using Some \<open>product it = Some q\<close>
        by (cases "q = pid") (simp_all add: ordered_quantity_Cons algebra_simps)
      finally show ?thesis .
    qed
  qed
qed

lemma restore_after_reduce:
  assumes "stock_suffices ps its"
  shows "restore_loop (reduce_loop ps its) its = ps"
proof
  fix pid
  show "restore_loop (reduce_loop ps its) its pid = ps pid"
    by (cases "ps pid") (simp_all add: restore_loop_eq reduce_loop_eq [OF assms])
qed

lemma cancel_exec:
  assumes f: "Order_findById d i = Some od" and nc: "status od \<noteq> ''CANCELLED''"
    and v: "Order_valid od"
  shows "cancelOrderWithStockRestore d i reason =
           (Inr i, d\<lparr>products := (if stockReduced od \<and> items od \<noteq> [] then restore_loop (products d) (items od) else products d),
                      orders := (orders d)[i := od\<lparr>status := ''CANCELLED'',
                         statusHistory := statusHistory od @ [(''CANCELLED'', if reason = [] then ''Order cancelled'' else reason)]\<rparr>]\<rparr>)"
proof -
  let ?odc = "od\<lparr>status := ''CANCELLED'',
                 statusHistory := statusHistory od @ [(''CANCELLED'', if reason = [] then ''Order cancelled'' else reason)]\<rparr>"
  let ?dr = "if stockReduced od \<and> items od \<noteq> [] then d\<lparr>products := restore_loop (products d) (items od)\<rparr> else d"
  have fr: "Order_findById ?dr i = Some od"
    using f by (simp add: Order_findById_Some_iff)
  have vc: "Order_valid ?odc"
    using v by (simp add: Order_valid_def status_enum_def)
  have sv: "Order_save ?dr i ?odc = Inr (?dr\<lparr>orders := (orders ?dr)[i := ?odc]\<rparr>)"
    by (rule Order_save_same_paymentId [OF fr _ vc]) simp
  have body: "cancelOrderWithStockRestore_body i reason d = Inr (i, ?dr\<lparr>orders := (orders ?dr)[i := ?odc]\<rparr>)"
    using f nc sv unfolding cancelOrderWithStockRestore_body_def
    by (simp add: Let_def)
  have "cancelOrderWithStockRestore d i reason = (Inr i, ?dr\<lparr>orders := (orders ?dr)[i := ?odc]\<rparr>)"
    unfolding cancelOrderWithStockRestore_def using body by (rule withTransaction_Inr)
  then show ?thesis by simp
qed

lemma cancel_never_settled:
  assumes f: "Order_findById d i = Some od" and ns: "\<not> stockReduced od"
  shows "products (snd (cancelOrderWithStockRestore d i reason)) = products d"
proof (cases "status od = ''CANCELLED''")
  case True
  with cancel_body_cases [OF f, of reason] show ?thesis by simp
next
  case False
  with cancel_body_cases [OF f, of reason] ns
  consider (a) err where "cancelOrderWithStockRestore d i reason = (Inl err, d)"
    | (b) d2 where "cancelOrderWithStockRestore d i reason = (Inr i, d2)" "products d2 = products d"
    by auto
  then show ?thesis by cases simp_all
qed

lemmas enum_defs = status_enum_def paymentMethod_enum_def paymentStatus_enum_def
  pay_method_enum_def pay_status_enum_def

lemma ex_find2: "Order_findById ex_db 2 = Some (ex_order 1 3 ''PLACED'')"
  by (simp add: Order_findById_def ex_db_def)

lemma ex_order_valid: "st \<in> set status_enum \<Longrightarrow> Order_valid (ex_order q n st)"
  by (simp add: Order_valid_def ex_order_def enum_defs)

lemma ex_order_fields [simp]:
  "items (ex_order q n st) = [\<lparr> product = Some 3, price = 600, quantity = q \<rparr>]"
  "stockReduced (ex_order q n st) = False"
  "status (ex_order q n st) = st"
  "user (ex_order q n st) = 7"
  "orderNumber (ex_order q n st) = n"
  "totalAmount (ex_order q n st) = 600 * q"
  by (simp_all add: ex_order_def)

lemma ex_products: "products ex_db = [3 \<mapsto> \<lparr> stock = 2, prod_price = 600 \<rparr>]"
  by (simp add: ex_db_def)

lemma ex_reduce0:
  "reduceStockAfterPayment ex_db 0 =
     (True, ex_db\<lparr>products := [3 \<mapsto> \<lparr> stock = 0, prod_price = 600 \<rparr>],
                  orders := (orders ex_db)[0 := (ex_order 5 1 ''CREATED'')\<lparr>stockReduced := True\<rparr>]\<rparr>)"
proof -
  have v: "Order_valid (ex_order 5 1 ''CREATED'')"
    by (rule ex_order_valid) (simp add: enum_defs)
  have ns: "\<not> stockReduced (ex_order 5 1 ''CREATED'')" by simp
  have "reduce_loop (products ex_db) (items (ex_order 5 1 ''CREATED'')) = [3 \<mapsto> \<lparr> stock = 0, prod_price = 600 \<rparr>]"
    by (simp add: ex_products qty_or_1_def)
  with reduceStock_exec [OF ex_find0 ns v] show ?thesis by simp
qed

lemma find_index_from_append:
  "(\<forall>y \<in> set xs. \<not> P y) \<Longrightarrow> P x \<Longrightarrow> find_index_from P (xs @ x # ys) k = Some (k + length xs, x)"
  by (induction xs arbitrary: k) simp_all

lemma guard_iff:
  "isPaymentAlreadyProcessed d (Some p) \<longleftrightarrow>
     p \<noteq> [] \<and> (\<exists>od \<in> set (orders d). paymentId od = Some p \<and> paymentStatus od = ''Paid'')"
  by (auto simp: isPaymentAlreadyProcessed_def find_None_iff)

lemma guard_fresh:
  "Some p \<notin> set (map paymentId (orders d)) \<Longrightarrow> \<not> isPaymentAlreadyProcessed d (Some p)"
  by (force simp: guard_iff image_iff)

lemma verify_settled:
  assumes g: "isPaymentAlreadyProcessed d (Some pid)"
    and f: "Order_findOne_paymentId d (Some pid) = Some (i, od)"
  shows "verify e d u ro (Some pid) sg a = (Success ''Payment already processed'' i (orderNumber od), d)"
  using g f by (simp add: verify_def)

lemma webhook_settled:
  assumes g: "isPaymentAlreadyProcessed d (Some pid)"
    and c: "call_paymentId (WebhookCall req) = Some pid"
    and v: "valid_proof e (WebhookCall req)"
  shows "webhook e d req = (Received (Some ''already_processed''), d)"
proof -
  from c obtain pay where pe: "payment_entity req = Some pay" and wp: "wp_id pay = Some pid"
    by (auto split: option.splits)
  from v have sg: "x_razorpay_signature req = Some (hmac_sha256 e (webhook_secret e) (body_json req))"
    and ev: "event req = ''payment.captured''"
    by simp_all
  from sg ev pe wp g show ?thesis by (simp add: webhook_def)
qed

lemma settled_tail:
  assumes g: "isPaymentAlreadyProcessed d (Some pid)"
    and f: "Order_findOne_paymentId d (Some pid) = Some (i, od)"
  shows "list_all (\<lambda>c. call_paymentId c = Some pid \<and> valid_proof e c) cs \<Longrightarrow>
         run_calls e d cs = (map (replay_answer i (orderNumber od)) cs, d)"
proof (induction cs)
  case Nil
  show ?case by simp
next
  case (Cons c cs)
  then have pc: "call_paymentId c = Some pid" and v: "valid_proof e c"
    and rest: "list_all (\<lambda>c. call_paymentId c = Some pid \<and> valid_proof e c) cs"
    by simp_all
  have s: "serve e d c = (replay_answer i (orderNumber od) c, d)"
  proof (cases c)
    case (ClientVerify u ro p sg a)
    with pc have "p = Some pid" by simp
    with verify_settled [OF g f, of e u ro sg a] ClientVerify show ?thesis by simp
  next
    case (WebhookCall req)
    with webhook_settled [OF g, of req e] pc v show ?thesis by simp
  qed
  from Cons.IH [OF rest] s show ?case by simp
qed

lemma cart_order_fields [simp]:
  "paymentId (cart_order u pd its sub) = pd_paymentId pd"
  "paymentStatus (cart_order u pd its sub) = ''Paid''"
  "items (cart_order u pd its sub) = its"
  by (simp_all add: cart_order_def)

lemma cart_paymentData_fields [simp]:
  "pdat_paymentId (cart_paymentData i u pd t) = pd_paymentId pd"
  "str_or (pdat_method (cart_paymentData i u pd t)) ''UPI'' \<in> set pay_method_enum"
  "str_or (pdat_status (cart_paymentData i u pd t)) ''PAID'' \<in> set pay_status_enum"
  by (simp_all add: cart_paymentData_def str_or_def pay_method_enum_def pay_status_enum_def)

lemma enrich_loop_found:
  "list_all (product_found ps) cis \<Longrightarrow> \<exists>its sub. enrich_loop ps cis acc t = Inr (its, sub)"
proof (induction cis arbitrary: acc t)
  case Nil
  show ?case by simp
next
  case (Cons ci cis)
  then have here: "product_found ps ci" and rest: "list_all (product_found ps) cis"
    by simp_all
  show ?case
  proof (cases "c_product ci")
    case NoRef
    with Cons.IH [OF rest] show ?thesis by simp
  next
    case DemoRef
    with Cons.IH [OF rest] show ?thesis by simp
  next
    case (ProductRef p)
    with here obtain pr where "ps p = Some pr" by (auto simp: product_found_def)
    with ProductRef Cons.IH [OF rest] show ?thesis by simp
  qed
qed

lemma Order_insert_cart:
  assumes pm: "pd_paymentMethod pd = Some ''Razorpay''" and pp: "pd_paymentId pd = Some pid"
    and fo: "Some pid \<notin> set (map paymentId (orders d))"
    and num: "Suc (length (orders d)) \<notin> set (map orderNumber (orders d))"
  shows "Order_insert d (cart_order u pd its sub) =
           Inr (length (orders d),
                d\<lparr>orders := orders d @ [(cart_order u pd its sub)\<lparr>orderNumber := Suc (length (orders d))\<rparr>]\<rparr>)"
proof -
  have v: "Order_valid ((cart_order u pd its sub)\<lparr>orderNumber := Suc (length (orders d))\<rparr>)"
    by (simp add: Order_valid_def cart_order_def str_or_def pm status_enum_def paymentMethod_enum_def
          paymentStatus_enum_def)
  have p: "paymentId ((cart_order u pd its sub)\<lparr>orderNumber := Suc (length (orders d))\<rparr>) = Some pid"
    and n: "orderNumber ((cart_order u pd its sub)\<lparr>orderNumber := Suc (length (orders d))\<rparr>) = Suc (length (orders d))"
    by (simp_all add: pp)
  show ?thesis
    unfolding Order_insert_def Let_def using v p n fo num by (simp only: if_False if_True not_True_eq_False simp_thms) 
qed

lemma createOrderFromCart_run:
  assumes pm: "pd_paymentMethod pd = Some ''Razorpay''" and pp: "pd_paymentId pd = Some pid"
    and fo: "Some pid \<notin> set (map paymentId (orders d))"
    and fp: "Some pid \<notin> set (map razorpayPaymentId (payments d))"
    and num: "Suc (length (orders d)) \<notin> set (map orderNumber (orders d))"
    and cart: "carts d u = Some cis" "cis \<noteq> []"
    and found: "list_all (product_found (products d)) cis"
  shows "\<exists>r dc odF p. createOrderFromCart e d u pd = (r, dc)
       \<and> orders dc = orders d @ [odF] \<and> paymentId odF = Some pid \<and> paymentStatus odF = ''Paid''
       \<and> orderNumber odF = Suc (length (orders d))
       \<and> payments dc = payments d @ [p] \<and> razorpayPaymentId p = Some pid
       \<and> ((\<forall>od. generateAndSaveInvoice e od \<noteq> None) \<longrightarrow>
            r = Inr (length (orders d)) \<and> carts dc u = Some [])
       \<and> ((\<forall>od. generateAndSaveInvoice e od = None) \<longrightarrow> r = Inl InvoiceError)"
proof -
  from enrich_loop_found [OF found, of "[]" 0] obtain its sub
    where en: "enrich_loop (products d) cis [] 0 = Inr (its, sub)" by blast
  define odN where "odN = (cart_order u pd its sub)\<lparr>orderNumber := Suc (length (orders d)), stockReduced := True\<rparr>"
  define dX where "dX = d\<lparr>products := reduce_loop (products d) its, orders := orders d @ [odN]\<rparr>"
  define d3 where "d3 = snd (createPaymentRecord dX
                        (cart_paymentData (length (orders d)) u pd (sub + shippingCharge_of sub)))"
  note ex = createOrderFromCart_exec [OF cart en Order_insert_cart [OF pm pp fo num], of e,
      folded odN_def, folded dX_def, folded d3_def]
  have pN: "paymentId odN = Some pid" and nN: "orderNumber odN = Suc (length (orders d))"
    and sN: "paymentStatus odN = ''Paid''"
    by (simp_all add: odN_def pp)
  have pX: "payments dX = payments d" by (simp add: dX_def)
  from createPaymentRecord_fresh [of "cart_paymentData (length (orders d)) u pd (sub + shippingCharge_of sub)" dX]
    fp pp pX
  obtain p where d3': "d3 = dX\<lparr>payments := payments dX @ [p]\<rparr>" and rp: "razorpayPaymentId p = Some pid"
    unfolding d3_def by auto
  have pay3: "payments d3 = payments d @ [p]" by (simp add: d3' pX)
  have ord3: "orders d3 = orders d @ [odN]" by (simp add: d3_def dX_def)
  show ?thesis
  proof (cases "generateAndSaveInvoice e odN")
    case None
    with ex have c: "createOrderFromCart e d u pd = (Inl InvoiceError, d3)" by (simp only: option.case)
    have "\<not> (\<forall>od. generateAndSaveInvoice e od \<noteq> None)" using None by blast
    with c ord3 pN sN nN pay3 rp show ?thesis by blast
  next
    case (Some pu)
    obtain path url where pu: "pu = (path, url)" by (cases pu)
    define odF where "odF = odN\<lparr>invoicePath := Some path, invoiceUrl := Some url\<rparr>"
    define dc where "dc = clear_cart (d3\<lparr>orders := orders d @ [odF]\<rparr>) u"
    from ex Some pu have c: "createOrderFromCart e d u pd = (Inr (length (orders d)), dc)"
      unfolding odF_def dc_def by (simp only: option.case prod.case)
    have o1: "orders dc = orders d @ [odF]" and p1: "payments dc = payments d @ [p]"
      unfolding dc_def by (simp_all add: pay3)
    have "carts d3 = carts d" by (simp add: d3_def dX_def)
    then have c1: "carts dc u = Some []"
      unfolding dc_def by (simp add: clear_cart_def cart)
    have pF: "paymentId odF = Some pid" and nF: "orderNumber odF = Suc (length (orders d))"
      and sF: "paymentStatus odF = ''Paid''"
      by (simp_all add: odF_def pN nN sN)
    have "\<not> (\<forall>od. generateAndSaveInvoice e od = None)"
    proof
      assume "\<forall>od. generateAndSaveInvoice e od = None"
      then have "generateAndSaveInvoice e odN = None" by (rule spec)
      with Some show False by simp
    qed
    with c o1 pF sF nF p1 rp c1 show ?thesis by blast
  qed
qed

lemma Order_save_Placed:
  "Order_save d i (od\<lparr>paymentStatus := ps, paymentId := pi, paymentMethod := pm, status := ''Placed'',
                       statusHistory := h\<rparr>) = Inl ValidationError"
  by (simp add: Order_save_def Order_valid_def status_enum_def)

lemma Order_findById_saveAddress [simp]:
  "Order_findById (saveAddressToUserOnPaymentSuccess d u a) i = Order_findById d i"
  by (simp add: Order_findById_def)

lemma settled_after:
  assumes ne: "pid \<noteq> []"
    and fo: "Some pid \<notin> set (map paymentId (orders d))"
    and o: "orders d1 = orders d @ [odF]"
    and p: "paymentId odF = Some pid" and s: "paymentStatus odF = ''Paid''"
  shows "isPaymentAlreadyProcessed d1 (Some pid)"
    and "Order_findOne_paymentId d1 (Some pid) = Some (length (orders d), odF)"
proof -
  show "isPaymentAlreadyProcessed d1 (Some pid)"
    unfolding guard_iff o using ne p s by simp
  have none: "\<forall>y \<in> set (orders d). \<not> paymentId y = Some pid"
    using fo by (auto simp: image_iff)
  from find_index_from_append [of "orders d" "\<lambda>od. paymentId od = Some pid" odF "[]" 0, OF none p]
  show "Order_findOne_paymentId d1 (Some pid) = Some (length (orders d), odF)"
    unfolding Order_findOne_paymentId_def o by simp
qed

lemma verify_first:
  assumes fo: "Some pid \<notin> set (map paymentId (orders d))"
    and fp: "Some pid \<notin> set (map razorpayPaymentId (payments d))"
    and num: "Suc (length (orders d)) \<notin> set (map orderNumber (orders d))"
    and sg: "sg = Some (expectedSignature e ro (Some pid))"
    and cart: "carts d u = Some cis" "cis \<noteq> []"
    and found: "list_all (product_found (products d)) cis"
  shows "\<exists>r d1 odF p. verify e d u ro (Some pid) sg a = (r, d1)
       \<and> orders d1 = orders d @ [odF] \<and> paymentId odF = Some pid \<and> paymentStatus odF = ''Paid''
       \<and> orderNumber odF = Suc (length (orders d))
       \<and> payments d1 = payments d @ [p] \<and> razorpayPaymentId p = Some pid
       \<and> ((\<forall>od. generateAndSaveInvoice e od \<noteq> None) \<longrightarrow>
            r = Success ''Payment verified & order created'' (length (orders d)) (Suc (length (orders d)))
            \<and> carts d1 u = Some [])
       \<and> ((\<forall>od. generateAndSaveInvoice e od = None) \<longrightarrow> r = Failure 500 InvoiceError)"
proof -
  have ng: "\<not> isPaymentAlreadyProcessed d (Some pid)" by (rule guard_fresh [OF fo])
  define pd where "pd = \<lparr> pd_paymentId = Some pid, pd_razorpayOrderId = ro, pd_razorpaySignature = sg,
                          pd_paymentMethod = Some ''Razorpay'', pd_shippingAddress = a \<rparr>"
  have pm: "pd_paymentMethod pd = Some ''Razorpay''" and pp: "pd_paymentId pd = Some pid"
    by (simp_all add: pd_def)
  from createOrderFromCart_run [OF pm pp fo fp num cart found, of e]
  obtain rc dc odF p where c: "createOrderFromCart e d u pd = (rc, dc)"
    and o: "orders dc = orders d @ [odF]" and pF: "paymentId odF = Some pid"
    and sF: "paymentStatus odF = ''Paid''" and nF: "orderNumber odF = Suc (length (orders d))"
    and py: "payments dc = payments d @ [p]" and rp: "razorpayPaymentId p = Some pid"
    and ok: "(\<forall>od. generateAndSaveInvoice e od \<noteq> None) \<longrightarrow> rc = Inr (length (orders d))"
    and ct: "(\<forall>od. generateAndSaveInvoice e od \<noteq> None) \<longrightarrow> carts dc u = Some []"
    and ko: "(\<forall>od. generateAndSaveInvoice e od = None) \<longrightarrow> rc = Inl InvoiceError"
    by blast
  have v: "verify e d u ro (Some pid) sg a =
        (case (rc, dc) of
           (Inl err, d1) \<Rightarrow> (Failure 500 err, d1)
         | (Inr i, d1) \<Rightarrow>
             (let d2 = saveAddressToUserOnPaymentSuccess d1 u a in
              case Order_findById d2 i of
                None \<Rightarrow> (Failure 500 OrderNotFound, d2)
              | Some od \<Rightarrow> (Success ''Payment verified & order created'' i (orderNumber od), d2)))"
    unfolding c [symmetric] pd_def using ng sg by (simp add: verify_def)
  have f: "Order_findById dc (length (orders d)) = Some odF"
    by (simp add: Order_findById_def o)
  consider (err) err where "rc = Inl err" | (created) "rc = Inr (length (orders d))"
    | (other) i where "rc = Inr i" "i \<noteq> length (orders d)"
    by (cases rc) auto
  then show ?thesis
  proof cases
    case (err x)
    with v have r: "verify e d u ro (Some pid) sg a = (Failure 500 x, dc)" by simp
    from err ok ko have "\<not> (\<forall>od. generateAndSaveInvoice e od \<noteq> None)"
      and "(\<forall>od. generateAndSaveInvoice e od = None) \<longrightarrow> x = InvoiceError"
      by auto
    with r o pF sF nF py rp show ?thesis by blast
  next
    case created
    with v f nF have r: "verify e d u ro (Some pid) sg a =
        (Success ''Payment verified & order created'' (length (orders d)) (Suc (length (orders d))),
         saveAddressToUserOnPaymentSuccess dc u a)"
      by (simp add: Let_def)
    have o2: "orders (saveAddressToUserOnPaymentSuccess dc u a) = orders d @ [odF]"
      and p2: "payments (saveAddressToUserOnPaymentSuccess dc u a) = payments d @ [p]"
      and c2: "carts (saveAddressToUserOnPaymentSuccess dc u a) = carts dc"
      by (simp_all add: o py)
    from created ko have "\<not> (\<forall>od. generateAndSaveInvoice e od = None)" by auto
    with r o2 p2 pF sF nF rp ct c2 show ?thesis by (metis (no_types, lifting))
  next
    case (other i)
    from other ok ko have "\<not> (\<forall>od. generateAndSaveInvoice e od \<noteq> None)"
      and "\<not> (\<forall>od. generateAndSaveInvoice e od = None)"
      by auto
    moreover obtain r d1 where "verify e d u ro (Some pid) sg a = (r, d1)"
      "orders d1 = orders dc" "payments d1 = payments dc"
      using v other by (cases "Order_findById dc i") (simp_all add: Let_def)
    ultimately show ?thesis using o pF sF nF py rp by (metis (no_types, lifting))
  qed
qed

lemma webhook_first:
  assumes fo: "Some pid \<notin> set (map paymentId (orders d))"
    and fp: "Some pid \<notin> set (map razorpayPaymentId (payments d))"
    and num: "Suc (length (orders d)) \<notin> set (map orderNumber (orders d))"
    and pc: "call_paymentId (WebhookCall req) = Some pid"
    and v: "valid_proof e (WebhookCall req)"
    and cu: "checkout_user (WebhookCall req) = Some u"
    and cart: "carts d u = Some cis" "cis \<noteq> []"
    and found: "list_all (product_found (products d)) cis"
  shows "\<exists>d1 odF p. webhook e d req = (Received None, d1)
       \<and> orders d1 = orders d @ [odF] \<and> paymentId odF = Some pid \<and> paymentStatus odF = ''Paid''
       \<and> orderNumber odF = Suc (length (orders d))
       \<and> payments d1 = payments d @ [p] \<and> razorpayPaymentId p = Some pid"
proof -
  have ng: "\<not> isPaymentAlreadyProcessed d (Some pid)" by (rule guard_fresh [OF fo])
  from pc obtain pay where pe: "payment_entity req = Some pay" and wp: "wp_id pay = Some pid"
    by (auto split: option.splits)
  from cu pe have no: "notes_orderId pay = None" and nu: "notes_userId pay = Some u"
    by (auto split: option.splits)
  from v have sg: "x_razorpay_signature req = Some (hmac_sha256 e (webhook_secret e) (body_json req))"
    and ev: "event req = ''payment.captured''"
    by simp_all
  define shippingAddr where "shippingAddr = (case notes_shippingAddress pay of None \<Rightarrow> empty_address | Some a \<Rightarrow> a)"
  define pd where "pd = \<lparr> pd_paymentId = Some pid, pd_razorpayOrderId = wp_order_id pay,
                          pd_razorpaySignature = None, pd_paymentMethod = Some ''Razorpay'',
                          pd_shippingAddress = Some shippingAddr \<rparr>"
  have pm: "pd_paymentMethod pd = Some ''Razorpay''" and pp: "pd_paymentId pd = Some pid"
    by (simp_all add: pd_def)
  from createOrderFromCart_run [OF pm pp fo fp num cart found, of e]
  obtain rc dc odF p where c: "createOrderFromCart e d u pd = (rc, dc)"
    and o: "orders dc = orders d @ [odF]" and pF: "paymentId odF = Some pid"
    and sF: "paymentStatus odF = ''Paid''" and nF: "orderNumber odF = Suc (length (orders d))"
    and py: "payments dc = payments d @ [p]" and rp: "razorpayPaymentId p = Some pid"
    by blast
  have w: "webhook e d req =
     (case (rc, dc) of
        (Inl err, d1) \<Rightarrow> (Received None, d1)
      | (Inr i, d1) \<Rightarrow> (Received None, saveAddressToUserOnPaymentSuccess d1 u (Some shippingAddr)))"
    unfolding c [symmetric] pd_def shippingAddr_def
    using sg ev pe wp ng no nu by (simp add: webhook_def Let_def)
  obtain d1 where "webhook e d req = (Received None, d1)" "orders d1 = orders dc" "payments d1 = payments dc"
    using w by (cases rc) simp_all
  with o pF sF nF py rp show ?thesis by (metis (no_types, lifting))
qed

lemma verify_creates:
  assumes ng: "\<not> isPaymentAlreadyProcessed d pid"
    and sg: "sg = Some (expectedSignature e ro pid)"
    and c: "createOrderFromCart e d u
              \<lparr> pd_paymentId = pid, pd_razorpayOrderId = ro, pd_razorpaySignature = sg,
                 pd_paymentMethod = Some ''Razorpay'', pd_shippingAddress = a \<rparr> = (Inr i, dc)"
    and f: "Order_findById dc i = Some od"
  shows "verify e d u ro pid sg a =
           (Success ''Payment verified & order created'' i (orderNumber od),
            saveAddressToUserOnPaymentSuccess dc u a)"
  using ng sg f unfolding verify_def c by (simp add: Let_def)

lemma verify_rejects:
  assumes "\<not> isPaymentAlreadyProcessed d pid" and "sg \<noteq> Some (expectedSignature e ro pid)"
  shows "verify e d u ro pid sg a = (Failure 400 InvalidSignature, d)"
  using assms by (simp add: verify_def)

lemma verify_upi_rejects:
  assumes "\<not> isPaymentAlreadyProcessed d pid" and "sg \<noteq> Some (expectedSignature e ro pid)"
  shows "verify_upi e d u ro pid sg orderId =
           (Failure 400 InvalidSignature,
            snd (createPaymentRecord d
                  \<lparr> pdat_paymentId = pid, pdat_razorpayOrderId = ro, pdat_razorpaySignature = None,
                     pdat_orderId = Some orderId, pdat_userId = Some u, pdat_amount = 0,
                     pdat_method = None, pdat_status = Some ''FAILED'' \<rparr>))"
  using assms by (simp add: verify_upi_def)

text \<open>Evaluation on the example database.\<close>

lemma ex_orders: "orders ex_db = [ex_order 5 1 ''CREATED'', ex_order 10 2 ''DELIVERED'', ex_order 1 3 ''PLACED'']"
  and ex_payments: "payments ex_db = []"
  and ex_cart7: "carts ex_db 7 = Some [\<lparr> c_product = ProductRef 3, c_price = 0, c_quantity = 2 \<rparr>]"
  and ex_cart8: "carts ex_db 8 = Some [\<lparr> c_product = NoRef, c_price = 999, c_quantity = 1 \<rparr>]"
  and ex_cart9: "carts ex_db 9 = Some [\<lparr> c_product = ProductRef 3, c_price = 0, c_quantity = 5 \<rparr>]"
  by (simp_all add: ex_db_def)

lemma ex_enrich7:
  "enrich_loop (products ex_db) [\<lparr> c_product = ProductRef 3, c_price = 0, c_quantity = 2 \<rparr>] [] 0
     = Inr ([\<lparr> product = Some 3, price = 600, quantity = 2 \<rparr>], 1200)"
  by (simp add: ex_products qty_or_1_def)

lemma ex_enrich8:
  "enrich_loop (products ex_db) [\<lparr> c_product = NoRef, c_price = 999, c_quantity = 1 \<rparr>] [] 0
     = Inr ([\<lparr> product = None, price = 999, quantity = 1 \<rparr>], 999)"
  by (simp add: qty_or_1_def)

lemma ex_enrich9:
  "enrich_loop (products ex_db) [\<lparr> c_product = ProductRef 3, c_price = 0, c_quantity = 5 \<rparr>] [] 0
     = Inr ([\<lparr> product = Some 3, price = 600, quantity = 5 \<rparr>], 3000)"
  by (simp add: ex_products qty_or_1_def)

lemma ex_insert:
  assumes "pd_paymentMethod pd = Some ''Razorpay''" and "pd_paymentId pd = Some p"
  shows "Order_insert ex_db (cart_order u pd its sub) =
           Inr (3, ex_db\<lparr>orders := orders ex_db @ [(cart_order u pd its sub)\<lparr>orderNumber := 4\<rparr>]\<rparr>)"
  using assms
  by (simp add: Order_insert_def ex_orders Order_valid_def cart_order_def str_or_def enum_defs Let_def
        ex_order_def)

lemma ex_invoice: "generateAndSaveInvoice ex_env od = Some (''invoice.pdf'', ''/invoice.pdf'')"
  by (simp add: ex_env_def)

lemma ex_create:
  assumes cart: "carts ex_db u = Some cis" "cis \<noteq> []"
    and en: "enrich_loop (products ex_db) cis [] 0 = Inr (its, sub)"
    and pm: "pd_paymentMethod pd = Some ''Razorpay''" and pp: "pd_paymentId pd = Some p"
  shows "\<exists>dc. createOrderFromCart ex_env ex_db u pd = (Inr 3, dc)
           \<and> orders dc = orders ex_db @
                [(cart_order u pd its sub)\<lparr>orderNumber := 4, stockReduced := True,
                    invoicePath := Some ''invoice.pdf'', invoiceUrl := Some ''/invoice.pdf''\<rparr>]
           \<and> products dc = reduce_loop (products ex_db) its"
proof -
  have len: "length (orders ex_db) = 3" by (simp add: ex_orders)
  note ex = createOrderFromCart_exec [OF cart en ex_insert [OF pm pp], of ex_env, unfolded ex_invoice len]
  show ?thesis
    unfolding ex by simp
qed

text \<open>
  An address without a house number is saved again by every settlement: the stored house
  number is \<open>''\<close>, the incoming one is absent, and \<open>===\<close> tells them apart.
\<close>

lemma saveAddress_absent_houseNo:
  "map_option (\<lambda>u. map houseNo (addresses u))
     (users (saveAddressToUserOnPaymentSuccess
               (saveAddressToUserOnPaymentSuccess ex_db 7 (Some (empty_address\<lparr>pincode := Some ''500001''\<rparr>)))
               7 (Some (empty_address\<lparr>pincode := Some ''500001''\<rparr>))) 7)
     = Some [Some [], Some []]"
  by (simp add: saveAddressToUserOnPaymentSuccess_def ex_db_def empty_address_def str_or_def)

lemma saveAddress_same_houseNo:
  "map_option (\<lambda>u. map houseNo (addresses u))
     (users (saveAddressToUserOnPaymentSuccess
               (saveAddressToUserOnPaymentSuccess ex_db 7
                  (Some (empty_address\<lparr>pincode := Some ''500001'', houseNo := Some ''12''\<rparr>)))
               7 (Some (empty_address\<lparr>pincode := Some ''500001'', houseNo := Some ''12''\<rparr>))) 7)
     = Some [Some ''12'']"
  by (simp add: saveAddressToUserOnPaymentSuccess_def ex_db_def empty_address_def str_or_def)

lemma ex_order_paymentId [simp]: "paymentId (ex_order q n st) = None"
  by (simp add: ex_order_def)

lemma ex_fresh:
  "Some p \<notin> set (map paymentId (orders ex_db))"
  "Some p \<notin> set (map razorpayPaymentId (payments ex_db))"
  by (simp_all add: ex_orders ex_payments)

lemma ex_signature:
  "expectedSignature ex_env (Some ''order_1'') (Some ''pay_1'') = ''k#order_1|pay_1''"
  by (simp add: expectedSignature_def ex_env_def str_or_def js_str_def toy_hmac_def)

lemma ex_webhook_signature:
  "x_razorpay_signature ex_webhook = Some (hmac_sha256 ex_env (webhook_secret ex_env) (body_json ex_webhook))"
  by (simp add: ex_webhook_def ex_env_def webhook_secret_def str_or_def toy_hmac_def)

lemma ex_verify_cart:
  assumes cart: "carts ex_db u = Some cis" "cis \<noteq> []"
    and en: "enrich_loop (products ex_db) cis [] 0 = Inr (its, sub)"
  shows "\<exists>d1. verify ex_env ex_db u (Some ''order_1'') (Some ''pay_1'') (Some ''k#order_1|pay_1'') None
          = (Success ''Payment verified & order created'' 3 4, d1)
       \<and> isPaymentAlreadyProcessed d1 (Some ''pay_1'')
       \<and> products d1 = reduce_loop (products ex_db) its
       \<and> map_option (\<lambda>od. (user od, orderNumber od, totalAmount od, paymentStatus od)) (Order_findById d1 3)
           = Some (u, 4, sub + shippingCharge_of sub, ''Paid'')"
proof -
  define pd where "pd = \<lparr> pd_paymentId = Some ''pay_1'', pd_razorpayOrderId = Some ''order_1'',
      pd_razorpaySignature = Some ''k#order_1|pay_1'', pd_paymentMethod = Some ''Razorpay'',
      pd_shippingAddress = None \<rparr>"
  have pm: "pd_paymentMethod pd = Some ''Razorpay''" and pp: "pd_paymentId pd = Some ''pay_1''"
    by (simp_all add: pd_def)
  define odF where "odF = (cart_order u pd its sub)
                   \<lparr>orderNumber := 4, stockReduced := True,
                    invoicePath := Some ''invoice.pdf'', invoiceUrl := Some ''/invoice.pdf''\<rparr>"
  from ex_create [OF cart en pm pp] obtain dc
    where c: "createOrderFromCart ex_env ex_db u pd = (Inr 3, dc)"
      and o: "orders dc = orders ex_db @ [odF]"
      and pr: "products dc = reduce_loop (products ex_db) its"
    unfolding odF_def by auto
  have f: "Order_findById dc 3 = Some odF"
    by (simp add: Order_findById_def o ex_orders)
  have n: "orderNumber odF = 4" and p: "paymentId odF = Some ''pay_1''" and ps: "paymentStatus odF = ''Paid''"
    by (simp_all add: odF_def pp)
  have ng: "\<not> isPaymentAlreadyProcessed ex_db (Some ''pay_1'')"
    by (rule guard_fresh [OF ex_fresh(1)])
  have sg: "Some ''k#order_1|pay_1'' = Some (expectedSignature ex_env (Some ''order_1'') (Some ''pay_1''))"
    by (simp add: ex_signature)
  note v = verify_creates [OF ng sg c [unfolded pd_def] f, unfolded n]
  have "odF \<in> set (orders (saveAddressToUserOnPaymentSuccess dc u None))"
    by (simp add: o)
  with p ps have "isPaymentAlreadyProcessed (saveAddressToUserOnPaymentSuccess dc u None) (Some ''pay_1'')"
    unfolding guard_iff by auto
  moreover have "products (saveAddressToUserOnPaymentSuccess dc u None) = reduce_loop (products ex_db) its"
    by (simp add: pr)
  moreover have "map_option (\<lambda>od. (user od, orderNumber od, totalAmount od, paymentStatus od))
       (Order_findById (saveAddressToUserOnPaymentSuccess dc u None) 3)
           = Some (u, 4, sub + shippingCharge_of sub, ''Paid'')"
    by (simp add: f odF_def cart_order_def)
  ultimately show ?thesis using v by blast
qed

lemmas ex_verify = ex_verify_cart [OF ex_cart7 _ ex_enrich7, simplified]

lemma ex_noinvoice_signature:
  "expectedSignature ex_env_noinvoice (Some ''order_1'') (Some ''pay_1'') = ''k#order_1|pay_1''"
  by (simp add: expectedSignature_def ex_env_noinvoice_def ex_env_def str_or_def js_str_def toy_hmac_def)

lemma ex_cart7_found:
  "list_all (product_found (products ex_db)) [\<lparr> c_product = ProductRef 3, c_price = 0, c_quantity = 2 \<rparr>]"
  by (simp add: product_found_def ex_products)

lemma ex_number_free: "Suc (length (orders ex_db)) \<notin> set (map orderNumber (orders ex_db))"
  by (simp add: ex_orders ex_order_def)

section \<open>Properties\<close>

text \<open>
  C1 (as amended). Take a non-empty external payment id \<open>pid\<close>, a database in which
  no order and no ledger entry bears it and the next order number \<open>count + 1\<close> is
  unused, an environment whose PDF controller does not throw, and a sequence of client
  verify calls and webhook deliveries that all carry \<open>pid\<close> and a valid proof. Let the
  first call check out a cart: it is a verify call, or a delivery that names a user and
  no existing order, and the cart of that user is non-empty with every catalogue product
  found. Then after the whole sequence exactly one order bears \<open>pid\<close>, numbered
  \<open>count + 1\<close>, and exactly one ledger entry bears \<open>pid\<close>; the first call was
  answered with the created order and its number (verify) or \<open>{received: true}\<close>
  (webhook); every later verify call was answered "Payment already processed" with the
  same order and number, every later delivery
  \<open>{received: true, status: 'already_processed'}\<close>; and the calls after the first left
  the database as the first call left it.
\<close>

theorem C1_idempotent_settlement:
  assumes ne: "pid \<noteq> []"
    and fo: "Some pid \<notin> set (map paymentId (orders d))"
    and fp: "Some pid \<notin> set (map razorpayPaymentId (payments d))"
    and num: "Suc (length (orders d)) \<notin> set (map orderNumber (orders d))"
    and inv: "\<forall>od. generateAndSaveInvoice e od \<noteq> None"
    and calls: "list_all (\<lambda>c. call_paymentId c = Some pid \<and> valid_proof e c) (c # cs)"
    and cu: "checkout_user c = Some u"
    and cart: "carts d u = Some cis" "cis \<noteq> []"
    and found: "list_all (product_found (products d)) cis"
  shows "map orderNumber (filter (\<lambda>od. paymentId od = Some pid) (orders (snd (run_calls e d (c # cs)))))
           = [Suc (length (orders d))]
       \<and> length (filter (\<lambda>p. razorpayPaymentId p = Some pid) (payments (snd (run_calls e d (c # cs))))) = 1
       \<and> fst (run_calls e d (c # cs))
           = created_answer (length (orders d)) (Suc (length (orders d))) c
             # map (replay_answer (length (orders d)) (Suc (length (orders d)))) cs
       \<and> map resp_orderNumber (fst (run_calls e d (c # cs)))
           = map (answered_orderNumber (Suc (length (orders d)))) (c # cs)
       \<and> snd (run_calls e d (c # cs)) = snd (serve e d c)"
proof -
  from calls have pc: "call_paymentId c = Some pid" and v: "valid_proof e c"
    and rest: "list_all (\<lambda>c. call_paymentId c = Some pid \<and> valid_proof e c) cs"
    by simp_all
  have "\<exists>d1 odF p. serve e d c = (created_answer (length (orders d)) (Suc (length (orders d))) c, d1)
       \<and> orders d1 = orders d @ [odF] \<and> paymentId odF = Some pid \<and> paymentStatus odF = ''Paid''
       \<and> orderNumber odF = Suc (length (orders d))
       \<and> payments d1 = payments d @ [p] \<and> razorpayPaymentId p = Some pid"
  proof (cases c)
    case (ClientVerify uid ro p sg a)
    with pc v cu have p: "p = Some pid" and sg: "sg = Some (expectedSignature e ro (Some pid))"
      and u: "uid = u"
      by simp_all
    from verify_first [OF fo fp num sg cart found, of a] inv ClientVerify p u
    show ?thesis by auto
  next
    case (WebhookCall req)
    from webhook_first [OF fo fp num _ _ _ cart found, of req e] pc v cu WebhookCall
    show ?thesis by simp
  qed
  then obtain d1 odF p
    where s: "serve e d c = (created_answer (length (orders d)) (Suc (length (orders d))) c, d1)"
      and o: "orders d1 = orders d @ [odF]" and pF: "paymentId odF = Some pid"
      and sF: "paymentStatus odF = ''Paid''" and nF: "orderNumber odF = Suc (length (orders d))"
      and py: "payments d1 = payments d @ [p]" and rp: "razorpayPaymentId p = Some pid"
    by blast
  note after = settled_after [OF ne fo o pF sF]
  note tail = settled_tail [OF after rest, unfolded nF]
  have run: "run_calls e d (c # cs)
      = (created_answer (length (orders d)) (Suc (length (orders d))) c
           # map (replay_answer (length (orders d)) (Suc (length (orders d)))) cs, d1)"
    by (simp add: s tail)
  have nofo: "filter (\<lambda>od. paymentId od = Some pid) (orders d) = []"
    using fo by (auto simp: filter_empty_conv image_iff)
  have nofp: "filter (\<lambda>p. razorpayPaymentId p = Some pid) (payments d) = []"
    using fp by (auto simp: filter_empty_conv image_iff)
  have a: "map orderNumber (filter (\<lambda>od. paymentId od = Some pid) (orders d1)) = [Suc (length (orders d))]"
    by (simp add: o nofo pF nF)
  have b: "length (filter (\<lambda>p. razorpayPaymentId p = Some pid) (payments d1)) = 1"
    by (simp add: py nofp rp)
  have ans1: "resp_orderNumber (created_answer i n c) = answered_orderNumber n c" for i n
    by (cases c) simp_all
  have ans2: "resp_orderNumber (replay_answer i n x) = answered_orderNumber n x" for i n x
    by (cases x) simp_all
  show ?thesis
    unfolding run using a b s by (simp add: ans1 ans2)
qed

text \<open>
  The claim as stated fails at these inputs, each a call that carries a valid proof.
  After a verify call settled \<open>pay_1\<close> as order number 4, a webhook delivery is
  answered \<open>{received: true, status: 'already_processed'}\<close>, which carries no order
  number. A verify call of user 5, who has no cart, is answered 500 (cart empty) and
  writes nothing. A delivery that names the existing order 0 assigns the status
  \<open>'Placed'\<close>, which the schema refuses; the error is caught, the answer is
  \<open>{received: true}\<close>, and no order and no ledger entry bears \<open>pay_1\<close>. A delivery
  that names neither an order nor a user writes nothing. A verify call whose cart names
  a product that does not exist is answered 500 and writes nothing. With the empty
  string as payment id the guard never holds: the second verify call runs the creation
  again and fails on the emptied cart. When the PDF controller throws, the first verify
  call is answered 500 after the order was written and the second verify call is
  answered with the order number 4.
\<close>

theorem C1_counterexample:
  "valid_proof ex_env (ClientVerify 7 (Some ''order_1'') (Some ''pay_1'') (Some ''k#order_1|pay_1'') None)
   \<and> valid_proof ex_env (WebhookCall ex_webhook)
   \<and> call_paymentId (WebhookCall ex_webhook) = Some ''pay_1''
   \<and> fst (run_calls ex_env ex_db
          [ClientVerify 7 (Some ''order_1'') (Some ''pay_1'') (Some ''k#order_1|pay_1'') None,
           WebhookCall ex_webhook])
       = [Success ''Payment verified & order created'' 3 4, Received (Some ''already_processed'')]
   \<and> map resp_orderNumber (fst (run_calls ex_env ex_db
          [ClientVerify 7 (Some ''order_1'') (Some ''pay_1'') (Some ''k#order_1|pay_1'') None,
           WebhookCall ex_webhook]))
       = [Some 4, None]
   \<and> valid_proof ex_env (ClientVerify 5 (Some ''order_1'') (Some ''pay_1'') (Some ''k#order_1|pay_1'') None)
   \<and> run_calls ex_env ex_db
          [ClientVerify 5 (Some ''order_1'') (Some ''pay_1'') (Some ''k#order_1|pay_1'') None]
       = ([Failure 500 CartEmpty], ex_db)
   \<and> valid_proof ex_env (WebhookCall ex_webhook_buynow)
   \<and> call_paymentId (WebhookCall ex_webhook_buynow) = Some ''pay_1''
   \<and> run_calls ex_env ex_db [WebhookCall ex_webhook_buynow] = ([Received None], ex_db)
   \<and> filter (\<lambda>od. paymentId od = Some ''pay_1'') (orders ex_db) = []
   \<and> filter (\<lambda>p. razorpayPaymentId p = Some ''pay_1'') (payments ex_db) = []
   \<and> valid_proof ex_env (WebhookCall ex_webhook_nouser)
   \<and> call_paymentId (WebhookCall ex_webhook_nouser) = Some ''pay_1''
   \<and> run_calls ex_env ex_db [WebhookCall ex_webhook_nouser] = ([Received None], ex_db)
   \<and> run_calls ex_env ex_db_missing
          [ClientVerify 5 (Some ''order_1'') (Some ''pay_1'') (Some ''k#order_1|pay_1'') None]
       = ([Failure 500 (ProductNotFound 4)], ex_db_missing)
   \<and> valid_proof ex_env (ClientVerify 7 (Some ''order_1'') (Some []) (Some ''k#order_1|'') None)
   \<and> fst (run_calls ex_env ex_db
          [ClientVerify 7 (Some ''order_1'') (Some []) (Some ''k#order_1|'') None,
           ClientVerify 7 (Some ''order_1'') (Some []) (Some ''k#order_1|'') None])
       = [Success ''Payment verified & order created'' 3 4, Failure 500 CartEmpty]
   \<and> valid_proof ex_env_noinvoice
        (ClientVerify 7 (Some ''order_1'') (Some ''pay_1'') (Some ''k#order_1|pay_1'') None)
   \<and> fst (run_calls ex_env_noinvoice ex_db
          [ClientVerify 7 (Some ''order_1'') (Some ''pay_1'') (Some ''k#order_1|pay_1'') None,
           ClientVerify 7 (Some ''order_1'') (Some ''pay_1'') (Some ''k#order_1|pay_1'') None])
       = [Failure 500 InvoiceError, Success ''Payment already processed'' 3 4]"
proof -
  let ?c = "ClientVerify 7 (Some ''order_1'') (Some ''pay_1'') (Some ''k#order_1|pay_1'') None"
  have ng: "\<not> isPaymentAlreadyProcessed ex_db (Some ''pay_1'')"
    by (rule guard_fresh [OF ex_fresh(1)])
  have len: "length (orders ex_db) = 3" by (simp add: ex_orders)
  from ex_verify obtain d1
    where v: "verify ex_env ex_db 7 (Some ''order_1'') (Some ''pay_1'') (Some ''k#order_1|pay_1'') None
          = (Success ''Payment verified & order created'' 3 4, d1)"
      and g: "isPaymentAlreadyProcessed d1 (Some ''pay_1'')"
    by blast
  have pe: "payment_entity ex_webhook = Some \<lparr> wp_id = Some ''pay_1'', wp_order_id = Some ''order_1'',
                       notes_userId = Some 7, notes_orderId = None, notes_shippingAddress = None \<rparr>"
    and ev: "event ex_webhook = ''payment.captured''"
    by (simp_all add: ex_webhook_def)
  have w: "webhook ex_env d1 ex_webhook = (Received (Some ''already_processed''), d1)"
    using g by (simp add: webhook_def ex_webhook_signature pe ev)
  have a: "fst (run_calls ex_env ex_db [?c, WebhookCall ex_webhook])
       = [Success ''Payment verified & order created'' 3 4, Received (Some ''already_processed'')]"
    by (simp add: v w)
  have a': "map resp_orderNumber (fst (run_calls ex_env ex_db [?c, WebhookCall ex_webhook])) = [Some 4, None]"
    unfolding a by simp
  have va: "valid_proof ex_env ?c" "valid_proof ex_env (WebhookCall ex_webhook)"
    "call_paymentId (WebhookCall ex_webhook) = Some ''pay_1''"
    by (simp_all add: ex_signature ex_webhook_signature pe ev)
  have c5: "carts ex_db 5 = None" by (simp add: ex_db_def)
  have b: "run_calls ex_env ex_db
          [ClientVerify 5 (Some ''order_1'') (Some ''pay_1'') (Some ''k#order_1|pay_1'') None]
       = ([Failure 500 CartEmpty], ex_db)"
    by (simp add: verify_def ng ex_signature createOrderFromCart_def c5)
  have vb: "valid_proof ex_env (ClientVerify 5 (Some ''order_1'') (Some ''pay_1'') (Some ''k#order_1|pay_1'') None)"
    by (simp add: ex_signature)
  have pe2: "payment_entity ex_webhook_buynow = Some \<lparr> wp_id = Some ''pay_1'', wp_order_id = Some ''order_1'',
                       notes_userId = Some 7, notes_orderId = Some 0, notes_shippingAddress = None \<rparr>"
    and ev2: "event ex_webhook_buynow = ''payment.captured''"
    and sg2: "x_razorpay_signature ex_webhook_buynow
                = Some (hmac_sha256 ex_env (webhook_secret ex_env) (body_json ex_webhook_buynow))"
    by (simp_all add: ex_webhook_buynow_def ex_env_def webhook_secret_def str_or_def toy_hmac_def)
  have c: "run_calls ex_env ex_db [WebhookCall ex_webhook_buynow] = ([Received None], ex_db)"
    by (simp add: webhook_def sg2 pe2 ev2 ng ex_find0 Order_save_Placed)
  have vc: "valid_proof ex_env (WebhookCall ex_webhook_buynow)"
    "call_paymentId (WebhookCall ex_webhook_buynow) = Some ''pay_1''"
    by (simp_all add: sg2 pe2 ev2)
  have none: "filter (\<lambda>od. paymentId od = Some ''pay_1'') (orders ex_db) = []"
    "filter (\<lambda>p. razorpayPaymentId p = Some ''pay_1'') (payments ex_db) = []"
    by (simp_all add: ex_orders ex_payments)
  have pe3: "payment_entity ex_webhook_nouser = Some \<lparr> wp_id = Some ''pay_1'', wp_order_id = Some ''order_1'',
                       notes_userId = None, notes_orderId = None, notes_shippingAddress = None \<rparr>"
    and ev3: "event ex_webhook_nouser = ''payment.captured''"
    and sg3: "x_razorpay_signature ex_webhook_nouser
                = Some (hmac_sha256 ex_env (webhook_secret ex_env) (body_json ex_webhook_nouser))"
    by (simp_all add: ex_webhook_nouser_def ex_env_def webhook_secret_def str_or_def toy_hmac_def)
  have f: "run_calls ex_env ex_db [WebhookCall ex_webhook_nouser] = ([Received None], ex_db)"
    by (simp add: webhook_def sg3 pe3 ev3 ng)
  have vf: "valid_proof ex_env (WebhookCall ex_webhook_nouser)"
    "call_paymentId (WebhookCall ex_webhook_nouser) = Some ''pay_1''"
    by (simp_all add: sg3 pe3 ev3)
  have ngm: "\<not> isPaymentAlreadyProcessed ex_db_missing (Some ''pay_1'')"
    using ng by (simp add: isPaymentAlreadyProcessed_def ex_db_missing_def)
  have cm: "carts ex_db_missing 5 = Some [\<lparr> c_product = ProductRef 4, c_price = 0, c_quantity = 1 \<rparr>]"
    and pm: "products ex_db_missing 4 = None"
    by (simp_all add: ex_db_missing_def ex_products)
  have gm: "run_calls ex_env ex_db_missing
          [ClientVerify 5 (Some ''order_1'') (Some ''pay_1'') (Some ''k#order_1|pay_1'') None]
       = ([Failure 500 (ProductNotFound 4)], ex_db_missing)"
    by (simp add: verify_def ngm ex_signature createOrderFromCart_def cm pm)
  have sge: "expectedSignature ex_env (Some ''order_1'') (Some []) = ''k#order_1|''"
    by (simp add: expectedSignature_def ex_env_def str_or_def js_str_def toy_hmac_def)
  have sge': "Some ''k#order_1|'' = Some (expectedSignature ex_env (Some ''order_1'') (Some []))"
    by (simp add: sge)
  have inv: "\<forall>od. generateAndSaveInvoice ex_env od \<noteq> None"
    by (simp add: ex_invoice)
  from verify_first [OF ex_fresh ex_number_free sge' ex_cart7 _ ex_cart7_found, of None] inv
  obtain de where ve: "verify ex_env ex_db 7 (Some ''order_1'') (Some []) (Some ''k#order_1|'') None
        = (Success ''Payment verified & order created'' (length (orders ex_db)) (Suc (length (orders ex_db))), de)"
    and ce: "carts de 7 = Some []"
    by auto
  have ve2: "verify ex_env de 7 (Some ''order_1'') (Some []) (Some ''k#order_1|'') None
        = (Failure 500 CartEmpty, de)"
    by (simp add: verify_def isPaymentAlreadyProcessed_def sge createOrderFromCart_def ce)
  have e: "fst (run_calls ex_env ex_db
          [ClientVerify 7 (Some ''order_1'') (Some []) (Some ''k#order_1|'') None,
           ClientVerify 7 (Some ''order_1'') (Some []) (Some ''k#order_1|'') None])
       = [Success ''Payment verified & order created'' 3 4, Failure 500 CartEmpty]"
    by (simp add: ve ve2 len)
  have vee: "valid_proof ex_env (ClientVerify 7 (Some ''order_1'') (Some []) (Some ''k#order_1|'') None)"
    by (simp add: sge)
  have noinv: "\<forall>od. generateAndSaveInvoice ex_env_noinvoice od = None"
    by (simp add: ex_env_noinvoice_def)
  have sgn: "Some ''k#order_1|pay_1'' = Some (expectedSignature ex_env_noinvoice (Some ''order_1'') (Some ''pay_1''))"
    by (simp add: ex_noinvoice_signature)
  from verify_first [OF ex_fresh ex_number_free sgn ex_cart7 _ ex_cart7_found, of None] noinv
  obtain d2 odF where v2: "verify ex_env_noinvoice ex_db 7 (Some ''order_1'') (Some ''pay_1'')
        (Some ''k#order_1|pay_1'') None = (Failure 500 InvoiceError, d2)"
    and o2: "orders d2 = orders ex_db @ [odF]" and pF: "paymentId odF = Some ''pay_1''"
    and sF: "paymentStatus odF = ''Paid''" and nF: "orderNumber odF = Suc (length (orders ex_db))"
    by auto
  have ne: "''pay_1'' \<noteq> []" by simp
  note after = settled_after [OF ne ex_fresh(1) o2 pF sF]
  note again = verify_settled [OF after, of ex_env_noinvoice 7 "Some ''order_1''" "Some ''k#order_1|pay_1''" None,
      unfolded nF len]
  have d: "fst (run_calls ex_env_noinvoice ex_db [?c, ?c])
       = [Failure 500 InvoiceError, Success ''Payment already processed'' 3 4]"
    by (simp add: v2 again)
  have vd: "valid_proof ex_env_noinvoice ?c"
    by (simp add: ex_noinvoice_signature)
  from va a a' vb b vc c none vf f gm vee e vd d show ?thesis by blast
qed

text \<open>
  The example: a verify call, a webhook delivery and a second verify call for \<open>pay_1\<close>.
\<close>

theorem C1_witness:
  "map orderNumber (filter (\<lambda>od. paymentId od = Some ''pay_1'')
      (orders (snd (run_calls ex_env ex_db
          [ClientVerify 7 (Some ''order_1'') (Some ''pay_1'') (Some ''k#order_1|pay_1'') None,
           WebhookCall ex_webhook,
           ClientVerify 7 (Some ''order_1'') (Some ''pay_1'') (Some ''k#order_1|pay_1'') None])))) = [4]
   \<and> length (filter (\<lambda>p. razorpayPaymentId p = Some ''pay_1'')
      (payments (snd (run_calls ex_env ex_db
          [ClientVerify 7 (Some ''order_1'') (Some ''pay_1'') (Some ''k#order_1|pay_1'') None,
           WebhookCall ex_webhook,
           ClientVerify 7 (Some ''order_1'') (Some ''pay_1'') (Some ''k#order_1|pay_1'') None])))) = 1
   \<and> fst (run_calls ex_env ex_db
          [ClientVerify 7 (Some ''order_1'') (Some ''pay_1'') (Some ''k#order_1|pay_1'') None,
           WebhookCall ex_webhook,
           ClientVerify 7 (Some ''order_1'') (Some ''pay_1'') (Some ''k#order_1|pay_1'') None])
      = [Success ''Payment verified & order created'' 3 4,
         Received (Some ''already_processed''),
         Success ''Payment already processed'' 3 4]
   \<and> map resp_orderNumber (fst (run_calls ex_env ex_db
          [ClientVerify 7 (Some ''order_1'') (Some ''pay_1'') (Some ''k#order_1|pay_1'') None,
           WebhookCall ex_webhook,
           ClientVerify 7 (Some ''order_1'') (Some ''pay_1'') (Some ''k#order_1|pay_1'') None]))
      = [Some 4, None, Some 4]"
proof -
  let ?c = "ClientVerify 7 (Some ''order_1'') (Some ''pay_1'') (Some ''k#order_1|pay_1'') None"
  have ne: "''pay_1'' \<noteq> []" by simp
  have inv: "\<forall>od. generateAndSaveInvoice ex_env od \<noteq> None"
    by (simp add: ex_invoice)
  have calls: "list_all (\<lambda>c. call_paymentId c = Some ''pay_1'' \<and> valid_proof ex_env c)
                 [?c, WebhookCall ex_webhook, ?c]"
    by (simp add: ex_signature ex_webhook_signature) (simp add: ex_webhook_def)
  have cu: "checkout_user ?c = Some 7" by simp
  have len: "length (orders ex_db) = 3" by (simp add: ex_orders)
  have m: "map (answered_orderNumber 4) [?c, WebhookCall ex_webhook, ?c] = [Some 4, None, Some 4]"
    and r: "created_answer 3 4 ?c # map (replay_answer 3 4) [WebhookCall ex_webhook, ?c]
              = [Success ''Payment verified & order created'' 3 4,
                 Received (Some ''already_processed''),
                 Success ''Payment already processed'' 3 4]"
    by simp_all
  have len4: "Suc (length (orders ex_db)) = 4" by (simp add: ex_orders)
  from C1_idempotent_settlement [OF ne ex_fresh ex_number_free inv calls cu ex_cart7 _ ex_cart7_found,
      unfolded len4, unfolded len, unfolded m r]
  show ?thesis by blast
qed

text \<open>
  C2. The claim asks that a decrement applies only when the stock before it is at least
  the requested quantity and that the stock is left unchanged otherwise. The settlement
  routes reduce stock with \<open>reduceStockAfterPayment\<close>, which clamps instead: with stock
  2 and an order of 5 units, \<open>POST /verify\<close> succeeds and leaves stock 0, as does the
  stock step on the existing order 0, and nothing is reported. The conditional update of
  \<open>executePaymentTransaction\<close> leaves the stock at 2 on the same items.
\<close>

theorem C2_clamped_decrement:
  "map_option stock (products ex_db 3) = Some 2
   \<and> fst (verify ex_env ex_db 9 (Some ''order_1'') (Some ''pay_1'') (Some ''k#order_1|pay_1'') None)
       = Success ''Payment verified & order created'' 3 4
   \<and> map_option stock
        (products (snd (verify ex_env ex_db 9 (Some ''order_1'') (Some ''pay_1'') (Some ''k#order_1|pay_1'') None)) 3)
       = Some 0
   \<and> fst (reduceStockAfterPayment ex_db 0) = True
   \<and> map_option stock (products (snd (reduceStockAfterPayment ex_db 0)) 3) = Some 0
   \<and> map_option stock (conditional_reduce_loop (products ex_db) (items (ex_order 5 1 ''CREATED'')) 3) = Some 2"
proof -
  from ex_verify_cart [OF ex_cart9 _ ex_enrich9] obtain d1
    where v: "verify ex_env ex_db 9 (Some ''order_1'') (Some ''pay_1'') (Some ''k#order_1|pay_1'') None
          = (Success ''Payment verified & order created'' 3 4, d1)"
      and p: "products d1 = reduce_loop (products ex_db) [\<lparr> product = Some 3, price = 600, quantity = 5 \<rparr>]"
    by auto
  have "map_option stock (products d1 3) = Some 0"
    unfolding p by (simp add: ex_products qty_or_1_def)
  then show ?thesis
    unfolding v ex_reduce0 by (simp add: ex_products qty_or_1_def)
qed

text \<open>
  C3 (as amended). A verify call, on either route, whose payment is not already settled
  and whose proof differs from the keyed hash of \<open>"{orderId}|{paymentId}"\<close> is answered
  400 "Invalid payment signature" and leaves the Order collection as it was. On
  \<open>/verify-upi\<close> the failure is appended to the ledger as a FAILED entry of amount 0,
  unless the ledger already holds an entry with that payment id.
\<close>

theorem C3_invalid_signature:
  assumes ng: "\<not> isPaymentAlreadyProcessed d pid"
    and bad: "sg \<noteq> Some (expectedSignature e ro pid)"
  shows "fst (verify e d u ro pid sg a) = Failure 400 InvalidSignature
       \<and> orders (snd (verify e d u ro pid sg a)) = orders d
       \<and> fst (verify_upi e d u ro pid sg orderId) = Failure 400 InvalidSignature
       \<and> orders (snd (verify_upi e d u ro pid sg orderId)) = orders d
       \<and> (pid = None \<or> pid \<notin> set (map razorpayPaymentId (payments d)) \<longrightarrow>
            payments (snd (verify_upi e d u ro pid sg orderId)) =
              payments d @ [\<lparr> razorpayPaymentId = pid, pay_razorpayOrderId = ro,
                               pay_razorpaySignature = None, pay_order = Some orderId,
                               pay_user = Some u, amount = 0, pay_method = ''UPI'',
                               pay_status = ''FAILED'' \<rparr>])"
proof -
  note v = verify_rejects [OF ng bad, of u a]
  note vu = verify_upi_rejects [OF ng bad, of u orderId]
  have "pid = None \<or> pid \<notin> set (map razorpayPaymentId (payments d)) \<longrightarrow>
            payments (snd (verify_upi e d u ro pid sg orderId)) =
              payments d @ [\<lparr> razorpayPaymentId = pid, pay_razorpayOrderId = ro,
                               pay_razorpaySignature = None, pay_order = Some orderId,
                               pay_user = Some u, amount = 0, pay_method = ''UPI'',
                               pay_status = ''FAILED'' \<rparr>]"
    unfolding vu
    by (auto simp: createPaymentRecord_def Payment_save_def Payment_valid_def str_or_def
          pay_method_enum_def pay_status_enum_def Let_def)
  then show ?thesis
    unfolding v vu by simp
qed

text \<open>
  The claim as stated fails where the payment is already settled: the idempotency check
  comes before the signature check, so a verify call with a forged proof for the settled
  payment \<open>pay_1\<close> is answered with success and the existing order.
\<close>

theorem C3_counterexample:
  "Some ''forged'' \<noteq> Some (expectedSignature ex_env (Some ''order_1'') (Some ''pay_1''))
   \<and> verify ex_env ex_paid_db 7 (Some ''order_1'') (Some ''pay_1'') (Some ''forged'') None
       = (Success ''Payment already processed'' 0 1, ex_paid_db)"
proof -
  have o: "orders ex_paid_db = [(ex_order 1 1 ''PAID'')\<lparr> paymentStatus := ''Paid'', paymentMethod := ''Razorpay'',
                                  paymentId := Some ''pay_1'', stockReduced := True \<rparr>]"
    by (simp add: ex_paid_db_def)
  have g: "isPaymentAlreadyProcessed ex_paid_db (Some ''pay_1'')"
    unfolding guard_iff o by simp
  have f: "Order_findOne_paymentId ex_paid_db (Some ''pay_1'') =
             Some (0, (ex_order 1 1 ''PAID'')\<lparr> paymentStatus := ''Paid'', paymentMethod := ''Razorpay'',
                                  paymentId := Some ''pay_1'', stockReduced := True \<rparr>)"
    unfolding Order_findOne_paymentId_def o by simp
  show ?thesis
    by (simp add: verify_def g f ex_signature)
qed

text \<open>
  The example: a forged proof for a payment that is not settled, on both routes.
\<close>

theorem C3_witness:
  "fst (verify ex_env ex_db 7 (Some ''order_1'') (Some ''pay_1'') (Some ''forged'') None)
       = Failure 400 InvalidSignature
   \<and> orders (snd (verify ex_env ex_db 7 (Some ''order_1'') (Some ''pay_1'') (Some ''forged'') None))
       = orders ex_db
   \<and> fst (verify_upi ex_env ex_db 7 (Some ''order_1'') (Some ''pay_1'') (Some ''forged'') 0)
       = Failure 400 InvalidSignature
   \<and> payments (snd (verify_upi ex_env ex_db 7 (Some ''order_1'') (Some ''pay_1'') (Some ''forged'') 0))
       = [\<lparr> razorpayPaymentId = Some ''pay_1'', pay_razorpayOrderId = Some ''order_1'',
            pay_razorpaySignature = None, pay_order = Some 0, pay_user = Some 7, amount = 0,
            pay_method = ''UPI'', pay_status = ''FAILED'' \<rparr>]"
proof -
  have ng: "\<not> isPaymentAlreadyProcessed ex_db (Some ''pay_1'')"
    by (rule guard_fresh [OF ex_fresh(1)])
  have bad: "Some ''forged'' \<noteq> Some (expectedSignature ex_env (Some ''order_1'') (Some ''pay_1''))"
    by (simp add: ex_signature)
  from C3_invalid_signature [OF ng bad, of 7 None 0] ex_fresh(2) [of "''pay_1''"]
  show ?thesis by (simp add: ex_payments)
qed

text \<open>
  C4 (as amended). For an order whose stock was not reduced yet: if stock suffices for
  it (at each decrement the stock is at least the requested quantity), the stock step of
  settlement lowers each product's stock by the quantity the order asks of it, the
  cancellation that follows succeeds and leaves every product's stock as it was before
  the settlement. And cancelling an order whose stock was never reduced leaves every
  product's stock unchanged.
\<close>

theorem C4_settle_then_cancel:
  assumes f: "Order_findById d i = Some od"
  shows "(\<not> stockReduced od \<and> Order_valid od \<and> status od \<noteq> ''CANCELLED''
            \<and> stock_suffices (products d) (items od) \<longrightarrow>
           (\<forall>pid pr. products d pid = Some pr \<longrightarrow>
              map_option stock (products (snd (reduceStockAfterPayment d i)) pid)
                = Some (stock pr - ordered_quantity (items od) pid))
         \<and> fst (cancelOrderWithStockRestore (snd (reduceStockAfterPayment d i)) i reason) = Inr i
         \<and> products (snd (cancelOrderWithStockRestore (snd (reduceStockAfterPayment d i)) i reason))
             = products d)
       \<and> (\<not> stockReduced od \<longrightarrow>
            products (snd (cancelOrderWithStockRestore d i reason)) = products d)"
proof (intro conjI impI allI)
  assume "\<not> stockReduced od"
  with f show "products (snd (cancelOrderWithStockRestore d i reason)) = products d"
    by (rule cancel_never_settled)
next
  assume a: "\<not> stockReduced od \<and> Order_valid od \<and> status od \<noteq> ''CANCELLED''
            \<and> stock_suffices (products d) (items od)"
  let ?od1 = "od\<lparr>stockReduced := True\<rparr>"
  define d1 where "d1 = d\<lparr>products := reduce_loop (products d) (items od), orders := (orders d)[i := ?od1]\<rparr>"
  from a have suf: "stock_suffices (products d) (items od)" by simp
  from reduceStock_exec [OF f] a have r: "snd (reduceStockAfterPayment d i) = d1"
    by (simp add: d1_def)
  from f have lt: "i < length (orders d)" by (simp add: Order_findById_Some_iff)
  then have f1: "Order_findById d1 i = Some ?od1"
    by (simp add: Order_findById_def d1_def)
  have v1: "Order_valid ?od1" and nc1: "status ?od1 \<noteq> ''CANCELLED''"
    using a by (simp_all add: Order_valid_def)
  note c = cancel_exec [OF f1 nc1 v1, of reason]
  show "fst (cancelOrderWithStockRestore (snd (reduceStockAfterPayment d i)) i reason) = Inr i"
    unfolding r c by simp
  have p1: "products d1 = reduce_loop (products d) (items od)" by (simp add: d1_def)
  have "(if stockReduced ?od1 \<and> items ?od1 \<noteq> [] then restore_loop (products d1) (items ?od1) else products d1)
          = products d"
  proof (cases "items od = []")
    case True
    then show ?thesis by (simp add: p1)
  next
    case False
    then show ?thesis by (simp add: p1 restore_after_reduce [OF suf])
  qed
  then show "products (snd (cancelOrderWithStockRestore (snd (reduceStockAfterPayment d i)) i reason)) = products d"
    unfolding r c by simp
  fix pid pr
  assume "products d pid = Some pr"
  then show "map_option stock (products (snd (reduceStockAfterPayment d i)) pid)
                = Some (stock pr - ordered_quantity (items od) pid)"
    unfolding r by (simp add: p1 reduce_loop_eq [OF suf])
qed

text \<open>
  The claim as stated fails where the decrement was clamped: with stock 2 and an order
  of 5 units the settlement lowers the stock by 2, to 0, and the cancellation adds 5.
  The conditional stock loop of \<open>executePaymentTransaction\<close> would skip the decrement,
  and the same restore loop would then leave stock 7.
\<close>

theorem C4_counterexample:
  "map_option stock (products ex_db 3) = Some 2
   \<and> map_option stock (products (snd (reduceStockAfterPayment ex_db 0)) 3) = Some 0
   \<and> map_option stock
        (products (snd (cancelOrderWithStockRestore (snd (reduceStockAfterPayment ex_db 0)) 0 ''changed my mind'')) 3)
       = Some 5
   \<and> map_option stock
        (restore_loop (conditional_reduce_loop (products ex_db) (items (ex_order 5 1 ''CREATED'')))
           (items (ex_order 5 1 ''CREATED'')) 3)
       = Some 7"
proof -
  define od1 where "od1 = (ex_order 5 1 ''CREATED'')\<lparr>stockReduced := True\<rparr>"
  define d1 where "d1 = ex_db\<lparr>products := [3 \<mapsto> \<lparr> stock = 0, prod_price = 600 \<rparr>],
                  orders := (orders ex_db)[0 := od1]\<rparr>"
  have r: "snd (reduceStockAfterPayment ex_db 0) = d1"
    by (simp add: ex_reduce0 d1_def od1_def)
  have f1: "Order_findById d1 0 = Some od1"
    by (simp add: Order_findById_def d1_def ex_db_def)
  have nc: "status od1 \<noteq> ''CANCELLED''" and v: "Order_valid od1"
    and sr: "stockReduced od1" and it: "items od1 = [\<lparr> product = Some 3, price = 600, quantity = 5 \<rparr>]"
    by (simp_all add: od1_def Order_valid_def ex_order_def enum_defs)
  have p1: "products d1 = [3 \<mapsto> \<lparr> stock = 0, prod_price = 600 \<rparr>]"
    by (simp add: d1_def)
  have "products (snd (cancelOrderWithStockRestore d1 0 ''changed my mind'')) 3
          = restore_loop (products d1) (items od1) 3"
    unfolding cancel_exec [OF f1 nc v] using sr it by simp
  also have "\<dots> = Some \<lparr> stock = 5, prod_price = 600 \<rparr>"
    unfolding p1 it by (simp add: qty_or_1_def)
  finally show ?thesis
    unfolding r by (simp add: p1 ex_products qty_or_1_def)
qed

text \<open>
  The example: order 2 asks one unit of product 3, of which two are in stock.
\<close>

theorem C4_witness:
  "map_option stock (products (snd (reduceStockAfterPayment ex_db 2)) 3) = Some 1
   \<and> fst (cancelOrderWithStockRestore (snd (reduceStockAfterPayment ex_db 2)) 2 ''changed my mind'') = Inr 2
   \<and> products (snd (cancelOrderWithStockRestore (snd (reduceStockAfterPayment ex_db 2)) 2 ''changed my mind''))
       = products ex_db
   \<and> products (snd (cancelOrderWithStockRestore ex_db 2 ''changed my mind'')) = products ex_db"
proof -
  have v: "Order_valid (ex_order 1 3 ''PLACED'')"
    by (rule ex_order_valid) (simp add: enum_defs)
  have suf: "stock_suffices (products ex_db) (items (ex_order 1 3 ''PLACED''))"
    by (simp add: ex_products qty_or_1_def)
  have q: "ordered_quantity (items (ex_order 1 3 ''PLACED'')) 3 = 1"
    by (simp add: ordered_quantity_def qty_or_1_def)
  have p: "products ex_db 3 = Some \<lparr> stock = 2, prod_price = 600 \<rparr>"
    by (simp add: ex_products)
  have ns: "\<not> stockReduced (ex_order 1 3 ''PLACED'')" and nc: "status (ex_order 1 3 ''PLACED'') \<noteq> ''CANCELLED''"
    by simp_all
  from C4_settle_then_cancel [OF ex_find2, of "''changed my mind''"] v suf ns nc
  have a: "\<forall>pid pr. products ex_db pid = Some pr \<longrightarrow>
              map_option stock (products (snd (reduceStockAfterPayment ex_db 2)) pid)
                = Some (stock pr - ordered_quantity (items (ex_order 1 3 ''PLACED'')) pid)"
    and b: "fst (cancelOrderWithStockRestore (snd (reduceStockAfterPayment ex_db 2)) 2 ''changed my mind'') = Inr 2"
      "products (snd (cancelOrderWithStockRestore (snd (reduceStockAfterPayment ex_db 2)) 2 ''changed my mind''))
         = products ex_db"
      "products (snd (cancelOrderWithStockRestore ex_db 2 ''changed my mind'')) = products ex_db"
    by blast+
  from a p q have "map_option stock (products (snd (reduceStockAfterPayment ex_db 2)) 3) = Some 1"
    by fastforce
  with b show ?thesis by simp
qed

text \<open>
  C5 (as amended). For the order that \<open>createOrderFromCart\<close> creates, the shipping
  charge is 0 when the items subtotal is above 999 and 49 otherwise (so also at exactly
  999), and the stored total is the items subtotal plus the shipping charge.
\<close>

theorem C5_shipping_and_total:
  assumes "createOrderFromCart e d u pd = (Inr i, d')"
  shows "\<exists>od. Order_findById d' i = Some od
           \<and> shippingCharge od = (if items_subtotal (items od) > 999 then 0 else 49)
           \<and> totalAmount od = items_subtotal (items od) + shippingCharge od"
proof (cases rule: createOrderFromCart_cases [of e d u pd])
  case (fail err)
  with assms show ?thesis by simp
next
  case (run cis its sub j d1)
  define odN where "odN = (cart_order u pd its sub)\<lparr>orderNumber := Suc (length (orders d)), stockReduced := True\<rparr>"
  define d3 where "d3 = snd (createPaymentRecord
                        (d\<lparr>products := reduce_loop (products d) its, orders := orders d @ [odN]\<rparr>)
                        (cart_paymentData (length (orders d)) u pd (sub + shippingCharge_of sub)))"
  note ex = createOrderFromCart_exec [OF run, of e, folded odN_def, folded d3_def]
  obtain path url where i: "i = length (orders d)"
    and o': "orders d' = orders d @ [odN\<lparr>invoicePath := Some path, invoiceUrl := Some url\<rparr>]"
  proof (cases "generateAndSaveInvoice e odN")
    case None
    with ex have "createOrderFromCart e d u pd = (Inl InvoiceError, d3)" by (simp only: option.case)
    with assms show ?thesis by simp
  next
    case (Some pu)
    obtain path url where pu: "pu = (path, url)" by (cases pu)
    from ex Some pu have "createOrderFromCart e d u pd = (Inr (length (orders d)),
         clear_cart (d3\<lparr>orders := orders d @ [odN\<lparr>invoicePath := Some path, invoiceUrl := Some url\<rparr>]\<rparr>) u)"
      by (simp only: option.case prod.case)
    with assms have i: "i = length (orders d)"
      and d': "d' = clear_cart (d3\<lparr>orders := orders d @ [odN\<lparr>invoicePath := Some path, invoiceUrl := Some url\<rparr>]\<rparr>) u"
      by (simp_all only: prod.inject sum.inject)
    have "orders d' = orders d @ [odN\<lparr>invoicePath := Some path, invoiceUrl := Some url\<rparr>]"
      unfolding d' by simp
    with i show ?thesis by (rule that)
  qed
  have sub: "items_subtotal its = sub" by (rule enrich_loop_subtotal [OF run(3)])
  have "Order_findById d' i = Some (odN\<lparr>invoicePath := Some path, invoiceUrl := Some url\<rparr>)"
    by (simp add: Order_findById_def i o')
  moreover have "shippingCharge odN = shippingCharge_of sub" "totalAmount odN = sub + shippingCharge_of sub"
    "items odN = its"
    by (simp_all add: odN_def cart_order_def)
  ultimately show ?thesis
    using sub by (simp add: shippingCharge_of_def)
qed

text \<open>
  The claim as stated fails at the threshold itself: a cart worth exactly 999 is charged
  49 for shipping, for a total of 1048.
\<close>

theorem C5_counterexample:
  "fst (createOrderFromCart ex_env ex_db 8 (ex_pd ''pay_2'')) = Inr 3
   \<and> map_option (\<lambda>od. (items_subtotal (items od), shippingCharge od, totalAmount od))
        (Order_findById (snd (createOrderFromCart ex_env ex_db 8 (ex_pd ''pay_2''))) 3)
      = Some (999, 49, 1048)"
proof -
  have pm: "pd_paymentMethod (ex_pd ''pay_2'') = Some ''Razorpay''" and pp: "pd_paymentId (ex_pd ''pay_2'') = Some ''pay_2''"
    by (simp_all add: ex_pd_def)
  from ex_create [OF ex_cart8 _ ex_enrich8 pm pp] obtain dc
    where c: "createOrderFromCart ex_env ex_db 8 (ex_pd ''pay_2'') = (Inr 3, dc)"
      and o: "orders dc = orders ex_db @
                [(cart_order 8 (ex_pd ''pay_2'') [\<lparr> product = None, price = 999, quantity = 1 \<rparr>] 999)
                   \<lparr>orderNumber := 4, stockReduced := True,
                    invoicePath := Some ''invoice.pdf'', invoiceUrl := Some ''/invoice.pdf''\<rparr>]"
    by auto
  show ?thesis
    unfolding c by (simp add: Order_findById_def o ex_orders cart_order_def items_subtotal_def shippingCharge_of_def)
qed

text \<open>
  The scenario of the specification: subtotal 1200, shipping 0, total 1200.
\<close>

theorem C5_witness:
  "fst (createOrderFromCart ex_env ex_db 7 (ex_pd ''pay_1'')) = Inr 3
   \<and> (\<exists>od. Order_findById (snd (createOrderFromCart ex_env ex_db 7 (ex_pd ''pay_1''))) 3 = Some od
          \<and> items_subtotal (items od) = 1200 \<and> shippingCharge od = 0 \<and> totalAmount od = 1200)"
proof -
  have pm: "pd_paymentMethod (ex_pd ''pay_1'') = Some ''Razorpay''" and pp: "pd_paymentId (ex_pd ''pay_1'') = Some ''pay_1''"
    by (simp_all add: ex_pd_def)
  from ex_create [OF ex_cart7 _ ex_enrich7 pm pp] obtain dc
    where c: "createOrderFromCart ex_env ex_db 7 (ex_pd ''pay_1'') = (Inr 3, dc)"
      and o: "orders dc = orders ex_db @
                [(cart_order 7 (ex_pd ''pay_1'') [\<lparr> product = Some 3, price = 600, quantity = 2 \<rparr>] 1200)
                   \<lparr>orderNumber := 4, stockReduced := True,
                    invoicePath := Some ''invoice.pdf'', invoiceUrl := Some ''/invoice.pdf''\<rparr>]"
    by auto
  have it: "items_subtotal (items (orders dc ! 3)) = 1200"
    by (simp add: o ex_orders items_subtotal_def)
  from C5_shipping_and_total [OF c] it show ?thesis
    unfolding c by (auto simp: Order_findById_def split: if_splits)
qed

text \<open>
  C6 (as amended). For an order whose status is one of the schema's, the cancel route
  obeys the state machine: it answers 400 "Cannot cancel order that has been shipped or
  delivered" and changes nothing when an authorised caller cancels a SHIPPED or
  DELIVERED order; it never changes the database when the order is in a terminal state;
  and whenever it changes the database the order ends CANCELLED, a legal successor of
  its old status.
\<close>

theorem C6_cancel_respects_state_machine:
  assumes f: "Order_findById d i = Some od" and en: "status od \<in> set status_enum"
  shows "(status od \<in> set [''SHIPPED'', ''DELIVERED''] \<and> (user od = uid \<or> isAdmin) \<longrightarrow>
            cancel d uid isAdmin i reason = (Failure 400 IllegalTransition, d))
       \<and> (terminal (status od) \<longrightarrow> snd (cancel d uid isAdmin i reason) = d)
       \<and> (snd (cancel d uid isAdmin i reason) = d
          \<or> (\<exists>od'. Order_findById (snd (cancel d uid isAdmin i reason)) i = Some od'
                \<and> status od' = ''CANCELLED'' \<and> legal_successor (status od) (status od')))"
proof -
  let ?reason = "if reason = [] then ''Cancelled by '' @ (if isAdmin then ''admin'' else ''user'') else reason"
  note B = cancel_body_cases [OF f, of ?reason]
  have 1: "status od \<in> set [''SHIPPED'', ''DELIVERED''] \<and> (user od = uid \<or> isAdmin) \<longrightarrow>
            cancel d uid isAdmin i reason = (Failure 400 IllegalTransition, d)"
    using f by (auto simp: cancel_def)
  have 2: "terminal (status od) \<longrightarrow> snd (cancel d uid isAdmin i reason) = d"
    using f B by (auto simp: cancel_def terminal_def)
  have 3: "snd (cancel d uid isAdmin i reason) = d
          \<or> (\<exists>od'. Order_findById (snd (cancel d uid isAdmin i reason)) i = Some od'
                \<and> status od' = ''CANCELLED'' \<and> legal_successor (status od) (status od'))"
  proof (cases "(user od \<noteq> uid \<and> \<not> isAdmin) \<or> status od \<in> set [''SHIPPED'', ''DELIVERED''] \<or> status od = ''CANCELLED''")
    case True
    then show ?thesis using f B by (auto simp: cancel_def)
  next
    case False
    then have st: "status od \<in> set [''CREATED'', ''PENDING'', ''PAID'', ''PLACED'']"
      using en by (auto simp: status_enum_def)
    then have leg: "legal_successor (status od) ''CANCELLED''"
      by (simp add: legal_successor_def)
    from f have lt: "i < length (orders d)" by (simp add: Order_findById_Some_iff)
    from False B consider (a) err where "cancelOrderWithStockRestore d i ?reason = (Inl err, d)"
      | (b) "cancelOrderWithStockRestore d i ?reason =
               (Inr i, d\<lparr>products := (if stockReduced od \<and> items od \<noteq> [] then restore_loop (products d) (items od) else products d),
                          orders := (orders d)[i := od\<lparr>status := ''CANCELLED'',
                             statusHistory := statusHistory od @ [(''CANCELLED'', if ?reason = [] then ''Order cancelled'' else ?reason)]\<rparr>]\<rparr>)"
      by blast
    then show ?thesis
    proof cases
      case a
      with f False show ?thesis by (simp add: cancel_def)
    next
      case b
      with f False lt leg show ?thesis
        by (simp add: cancel_def Order_findById_def)
    qed
  qed
  from 1 2 3 show ?thesis by blast
qed

text \<open>
  The claim as stated fails for the administrator's status update, which stores whatever
  status the request names: it moves the DELIVERED order 1 back to CREATED. It fails for
  settlement too: a COD call on a CANCELLED order of its caller makes it PLACED.
\<close>

theorem C6_counterexample:
  "Order_findById ex_db 1 = Some (ex_order 10 2 ''DELIVERED'')
   \<and> terminal ''DELIVERED''
   \<and> \<not> legal_successor ''DELIVERED'' ''CREATED''
   \<and> fst (update_status ex_db 1 ''CREATED'' [] None) = OrderJson 1
   \<and> map_option status (Order_findById (snd (update_status ex_db 1 ''CREATED'' [] None)) 1) = Some ''CREATED''
   \<and> terminal ''CANCELLED''
   \<and> \<not> legal_successor ''CANCELLED'' ''PLACED''
   \<and> fst (cod ex_env (ex_db\<lparr>orders := [ex_order 1 1 ''CANCELLED'']\<rparr>) 7 (Some 0))
       = Success ''COD order placed successfully'' 0 1
   \<and> map_option status
        (Order_findById (snd (cod ex_env (ex_db\<lparr>orders := [ex_order 1 1 ''CANCELLED'']\<rparr>) 7 (Some 0))) 0)
       = Some ''PLACED''"
proof -
  let ?od = "(ex_order 10 2 ''DELIVERED'')\<lparr> status := ''CREATED'',
                paymentStatus := str_or None (paymentStatus (ex_order 10 2 ''DELIVERED'')),
                statusHistory := statusHistory (ex_order 10 2 ''DELIVERED'') @ [(''CREATED'', [])] \<rparr>"
  have v: "Order_valid ?od"
    by (simp add: Order_valid_def ex_order_def str_or_def enum_defs)
  have sv: "Order_save ex_db (Suc 0) ?od = Inr (ex_db\<lparr>orders := (orders ex_db)[Suc 0 := ?od]\<rparr>)"
    by (rule Order_save_same_paymentId [OF ex_find1 _ v]) simp
  have u: "update_status ex_db (Suc 0) ''CREATED'' [] None
             = (OrderJson (Suc 0), ex_db\<lparr>orders := (orders ex_db)[Suc 0 := ?od]\<rparr>)"
    unfolding update_status_def by (simp add: ex_find1 sv)
  have s: "map_option status (Order_findById (ex_db\<lparr>orders := (orders ex_db)[Suc 0 := ?od]\<rparr>) (Suc 0)) = Some ''CREATED''"
    by (simp add: Order_findById_def ex_orders)
  define dc where "dc = ex_db\<lparr>orders := [ex_order 1 1 ''CANCELLED'']\<rparr>"
  have fc: "Order_findById dc 0 = Some (ex_order 1 1 ''CANCELLED'')"
    by (simp add: Order_findById_def dc_def)
  have c: "fst (cod ex_env dc 7 (Some 0)) = Success ''COD order placed successfully'' 0 1"
    "map_option status (Order_findById (snd (cod ex_env dc 7 (Some 0))) 0) = Some ''PLACED''"
    unfolding cod_accepts [OF fc, of 7 ex_env, simplified]
    by (simp_all add: Order_findById_def dc_def ex_invoice)
  show ?thesis
    unfolding dc_def [symmetric]
    by (simp add: u s c ex_find1 terminal_def legal_successor_def)
qed

text \<open>
  The example: user 7 cancels the delivered order 1 (refused) and the created order 0.
\<close>

theorem C6_witness:
  "cancel ex_db 7 False 1 ''changed my mind'' = (Failure 400 IllegalTransition, ex_db)
   \<and> (\<exists>od'. Order_findById (snd (cancel ex_db 7 False 0 ''changed my mind'')) 0 = Some od'
          \<and> status od' = ''CANCELLED'' \<and> legal_successor ''CREATED'' (status od'))"
proof -
  have f1: "Order_findById ex_db 1 = Some (ex_order 10 2 ''DELIVERED'')"
    using ex_find1 by simp
  have e1: "status (ex_order 10 2 ''DELIVERED'') \<in> set status_enum"
    and e0: "status (ex_order 5 1 ''CREATED'') \<in> set status_enum"
    by (simp_all add: enum_defs)
  note A = C6_cancel_respects_state_machine [OF f1 e1, of 7 False "''changed my mind''"]
  note B = C6_cancel_respects_state_machine [OF ex_find0 e0, of 7 False "''changed my mind''"]
  have v: "Order_valid (ex_order 5 1 ''CREATED'')"
    by (rule ex_order_valid) (simp add: enum_defs)
  have nc: "status (ex_order 5 1 ''CREATED'') \<noteq> ''CANCELLED''" by simp
  have "cancel ex_db 7 False 0 ''changed my mind'' =
          (OrderJson 0, snd (cancelOrderWithStockRestore ex_db 0 ''changed my mind''))"
    unfolding cancel_def by (simp add: ex_find0 cancel_exec [OF ex_find0 nc v])
  moreover have "orders (snd (cancelOrderWithStockRestore ex_db 0 ''changed my mind'')) \<noteq> orders ex_db"
    unfolding cancel_exec [OF ex_find0 nc v] by (simp add: ex_orders ex_order_def)
  ultimately have "snd (cancel ex_db 7 False 0 ''changed my mind'') \<noteq> ex_db"
    by auto
  with A B show ?thesis by simp
qed

text \<open>
  C7 (as amended). A COD call on an existing order owned by the caller: when the total
  exceeds 5000 it is answered 400 (COD limit) and the database is unchanged, so the
  order's status, payment status and history are; otherwise it succeeds, the payment
  method is COD, the payment status is Pending afterwards (unchanged when it was Pending
  before the call), the status PLACED, and the history has one more entry.
\<close>

theorem C7_cod_limit:
  assumes "Order_findById d i = Some od" and "user od = uid"
  shows "(totalAmount od > 5000 \<longrightarrow> cod e d uid (Some i) = (Failure 400 CODLimitExceeded, d))
       \<and> (totalAmount od \<le> 5000 \<longrightarrow>
            fst (cod e d uid (Some i)) = Success ''COD order placed successfully'' i (orderNumber od)
          \<and> (\<exists>od'. Order_findById (snd (cod e d uid (Some i))) i = Some od'
                \<and> paymentMethod od' = ''COD'' \<and> paymentStatus od' = ''Pending''
                \<and> (paymentStatus od = ''Pending'' \<longrightarrow> paymentStatus od' = paymentStatus od)
                \<and> status od' = ''PLACED''
                \<and> statusHistory od' = statusHistory od @ [(''PLACED'', ''Cash on Delivery order placed'')]))"
proof (intro conjI impI)
  assume "totalAmount od > 5000"
  with assms show "cod e d uid (Some i) = (Failure 400 CODLimitExceeded, d)"
    by (simp add: cod_def)
next
  assume le: "totalAmount od \<le> 5000"
  note acc = cod_accepts [OF assms(1) assms(2) le, of e]
  show "fst (cod e d uid (Some i)) = Success ''COD order placed successfully'' i (orderNumber od)"
    by (simp add: acc)
  from assms(1) have lt: "i < length (orders d)"
    by (simp add: Order_findById_Some_iff)
  show "\<exists>od'. Order_findById (snd (cod e d uid (Some i))) i = Some od'
                \<and> paymentMethod od' = ''COD'' \<and> paymentStatus od' = ''Pending''
                \<and> (paymentStatus od = ''Pending'' \<longrightarrow> paymentStatus od' = paymentStatus od)
                \<and> status od' = ''PLACED''
                \<and> statusHistory od' = statusHistory od @ [(''PLACED'', ''Cash on Delivery order placed'')]"
    using lt by (simp add: acc Order_findById_def split: option.splits)
qed

text \<open>
  The claim as stated fails for an order that is paid: the route assigns the payment
  status without reading it. User 7 settles \<open>pay_1\<close> by a verify call, which creates
  order 3 (number 4, total 1200, payment status Paid); a COD call of user 7 on that order
  succeeds and the payment status is Pending afterwards, so it did not remain what it was.
\<close>

theorem C7_counterexample:
  "fst (verify ex_env ex_db 7 (Some ''order_1'') (Some ''pay_1'') (Some ''k#order_1|pay_1'') None)
       = Success ''Payment verified & order created'' 3 4
   \<and> map_option (\<lambda>od. (user od, totalAmount od, paymentStatus od))
        (Order_findById (snd (verify ex_env ex_db 7 (Some ''order_1'') (Some ''pay_1'')
                                 (Some ''k#order_1|pay_1'') None)) 3)
       = Some (7, 1200, ''Paid'')
   \<and> fst (cod ex_env (snd (verify ex_env ex_db 7 (Some ''order_1'') (Some ''pay_1'')
                               (Some ''k#order_1|pay_1'') None)) 7 (Some 3))
       = Success ''COD order placed successfully'' 3 4
   \<and> map_option paymentStatus
        (Order_findById (snd (cod ex_env (snd (verify ex_env ex_db 7 (Some ''order_1'') (Some ''pay_1'')
                                                 (Some ''k#order_1|pay_1'') None)) 7 (Some 3))) 3)
       = Some ''Pending''"
proof -
  from ex_verify obtain d1
    where v: "verify ex_env ex_db 7 (Some ''order_1'') (Some ''pay_1'') (Some ''k#order_1|pay_1'') None
          = (Success ''Payment verified & order created'' 3 4, d1)"
      and o: "map_option (\<lambda>od. (user od, orderNumber od, totalAmount od, paymentStatus od)) (Order_findById d1 3)
                = Some (7, 4, 1200, ''Paid'')"
    by (auto simp: shippingCharge_of_def)
  from o obtain od where f: "Order_findById d1 3 = Some od" and own: "user od = 7"
    and num: "orderNumber od = 4" and t: "totalAmount od = 1200" and paid: "paymentStatus od = ''Paid''"
    by auto
  from t have le: "totalAmount od \<le> 5000" by simp
  note acc = cod_accepts [OF f own le, of ex_env]
  from f have lt: "3 < length (orders d1)"
    by (simp add: Order_findById_Some_iff)
  have a: "fst (cod ex_env d1 7 (Some 3)) = Success ''COD order placed successfully'' 3 4"
    by (simp add: acc num)
  have b: "map_option paymentStatus (Order_findById (snd (cod ex_env d1 7 (Some 3))) 3) = Some ''Pending''"
    using lt by (simp add: acc Order_findById_def ex_invoice)
  have c: "map_option (\<lambda>od. (user od, totalAmount od, paymentStatus od)) (Order_findById d1 3)
             = Some (7, 1200, ''Paid'')"
    by (simp add: f own t paid)
  show ?thesis
    unfolding v fst_conv snd_conv using a b c by blast
qed

text \<open>
  The example: order 1 (total 6000) is refused, order 0 (total 3000, payment status
  Pending) is placed.
\<close>

theorem C7_cod_limit_witness:
  "cod ex_env ex_db 7 (Some 1) = (Failure 400 CODLimitExceeded, ex_db)
   \<and> fst (cod ex_env ex_db 7 (Some 0)) = Success ''COD order placed successfully'' 0 1
   \<and> (\<exists>od'. Order_findById (snd (cod ex_env ex_db 7 (Some 0))) 0 = Some od'
         \<and> paymentMethod od' = ''COD'' \<and> paymentStatus od' = ''Pending''
         \<and> paymentStatus od' = paymentStatus (ex_order 5 1 ''CREATED'') \<and> status od' = ''PLACED''
         \<and> statusHistory od' = [(''CREATED'', ''Order created, awaiting payment''),
                                  (''PLACED'', ''Cash on Delivery order placed'')])"
  using C7_cod_limit [of ex_db 0 "ex_order 5 1 ''CREATED''" 7 ex_env]
        C7_cod_limit [of ex_db 1 "ex_order 10 2 ''DELIVERED''" 7 ex_env]
  by (simp add: ex_find0 ex_find1 ex_order_def)

text \<open>
  C8. Replaying the stock-reduction step for an order whose \<open>stockReduced\<close> flag is
  already true returns \<open>false\<close> and leaves the whole database, the stock and the order
  with it, unchanged. And a step that succeeded cannot succeed again: replayed on the
  database it produced, it is such a no-op. So the flag goes from false to true at most
  once.
\<close>

theorem C8_replay_is_noop:
  assumes "Order_findById d i = Some od"
  shows "(stockReduced od \<longrightarrow> reduceStockAfterPayment d i = (False, d))
       \<and> (reduceStockAfterPayment d i = (True, d1) \<longrightarrow> reduceStockAfterPayment d1 i = (False, d1))"
proof (intro conjI impI)
  assume "stockReduced od"
  with assms show "reduceStockAfterPayment d i = (False, d)"
    by (simp add: reduceStockAfterPayment_def)
next
  assume run: "reduceStockAfterPayment d i = (True, d1)"
  let ?d0 = "d\<lparr>products := reduce_loop (products d) (items od)\<rparr>"
  from run assms have sv: "Order_save ?d0 i (od\<lparr>stockReduced := True\<rparr>) = Inr d1"
    by (auto simp: reduceStockAfterPayment_def Let_def split: if_splits sum.splits)
  from assms have "i < length (orders d)"
    by (simp add: Order_findById_Some_iff)
  with Order_save_orders [OF sv] have "Order_findById d1 i = Some (od\<lparr>stockReduced := True\<rparr>)"
    by (simp add: Order_findById_def)
  then show "reduceStockAfterPayment d1 i = (False, d1)"
    by (simp add: reduceStockAfterPayment_def)
qed

text \<open>
  The example: the step on order 0, then its replay.
\<close>

theorem C8_witness:
  "fst (reduceStockAfterPayment ex_db 0) = True
   \<and> reduceStockAfterPayment (snd (reduceStockAfterPayment ex_db 0)) 0
       = (False, snd (reduceStockAfterPayment ex_db 0))"
proof -
  have r: "fst (reduceStockAfterPayment ex_db 0) = True"
    by (simp add: reduceStockAfterPayment_def ex_find0 Order_save_def Order_valid_def ex_order_def
          status_enum_def paymentMethod_enum_def paymentStatus_enum_def Let_def)
  then have "reduceStockAfterPayment ex_db 0 = (True, snd (reduceStockAfterPayment ex_db 0))"
    by (metis prod.collapse)
  with C8_replay_is_noop [of ex_db 0 "ex_order 5 1 ''CREATED''" "snd (reduceStockAfterPayment ex_db 0)"] r
  show ?thesis by (simp add: ex_find0)
qed

text \<open>
  C9. A successful COD call leaves products and payments as they were and the Order
  collection as long as it was. Every other order is unchanged; the target order differs
  from the one found only in payment method, payment status, status, history and the
  invoice fields. Carts and users of everyone else are unchanged, and the caller's cart,
  if there is one, is empty.
\<close>

theorem C9_cod_frame:
  assumes "cod e d uid orderId = (Success m j n, d')"
  shows "products d' = products d
       \<and> payments d' = payments d
       \<and> length (orders d') = length (orders d)
       \<and> (\<forall>k. k \<noteq> j \<longrightarrow> Order_findById d' k = Order_findById d k)
       \<and> (\<exists>od ip iu. Order_findById d j = Some od
             \<and> Order_findById d' j = Some (od\<lparr> paymentMethod := ''COD'', paymentStatus := ''Pending'',
                   status := ''PLACED'',
                   statusHistory := statusHistory od @ [(''PLACED'', ''Cash on Delivery order placed'')],
                   invoicePath := ip, invoiceUrl := iu \<rparr>))
       \<and> (\<forall>v. v \<noteq> uid \<longrightarrow> carts d' v = carts d v \<and> users d' v = users d v)
       \<and> carts d' uid = (case carts d uid of None \<Rightarrow> None | Some cis \<Rightarrow> Some [])"
proof -
  from cod_Success_cases [OF assms] obtain od where oi: "orderId = Some j"
    and f: "Order_findById d j = Some od" and own: "user od = uid" and le: "totalAmount od \<le> 5000"
    by blast
  define od1 where "od1 = od\<lparr> paymentMethod := ''COD'', paymentStatus := ''Pending'', status := ''PLACED'',
       statusHistory := statusHistory od @ [(''PLACED'', ''Cash on Delivery order placed'')] \<rparr>"
  define odF where "odF = (case generateAndSaveInvoice e od1 of None \<Rightarrow> od1
                    | Some (path, url) \<Rightarrow> od1\<lparr>invoicePath := Some path, invoiceUrl := Some url\<rparr>)"
  have d': "d' = clear_cart (saveAddressToUserOnPaymentSuccess (d\<lparr>orders := (orders d)[j := odF]\<rparr>) uid (shippingAddress od)) uid"
    unfolding odF_def od1_def using cod_accepts [OF f own le, of e] assms oi by simp
  from f have lt: "j < length (orders d)"
    by (simp add: Order_findById_Some_iff)
  have odF: "\<exists>ip iu. odF = od1\<lparr>invoicePath := ip, invoiceUrl := iu\<rparr>"
  proof (cases "generateAndSaveInvoice e od1")
    case None
    then have "odF = od1\<lparr>invoicePath := invoicePath od1, invoiceUrl := invoiceUrl od1\<rparr>"
      by (simp add: odF_def)
    then show ?thesis by blast
  next
    case (Some pu)
    then have "odF = od1\<lparr>invoicePath := Some (fst pu), invoiceUrl := Some (snd pu)\<rparr>"
      by (simp add: odF_def split: prod.splits)
    then show ?thesis by blast
  qed
  have 1: "products d' = products d" and 2: "payments d' = payments d"
    and 3: "length (orders d') = length (orders d)"
    by (simp_all add: d')
  have 4: "\<forall>k. k \<noteq> j \<longrightarrow> Order_findById d' k = Order_findById d k"
    by (simp add: d' Order_findById_def)
  have 5: "\<exists>od ip iu. Order_findById d j = Some od
             \<and> Order_findById d' j = Some (od\<lparr> paymentMethod := ''COD'', paymentStatus := ''Pending'',
                   status := ''PLACED'',
                   statusHistory := statusHistory od @ [(''PLACED'', ''Cash on Delivery order placed'')],
                   invoicePath := ip, invoiceUrl := iu \<rparr>)"
  proof -
    from odF obtain ip iu where "odF = od1\<lparr>invoicePath := ip, invoiceUrl := iu\<rparr>" by blast
    with lt have "Order_findById d' j = Some (od1\<lparr>invoicePath := ip, invoiceUrl := iu\<rparr>)"
      by (simp add: d' Order_findById_def)
    with f show ?thesis unfolding od1_def by blast
  qed
  have 6: "\<forall>v. v \<noteq> uid \<longrightarrow> carts d' v = carts d v \<and> users d' v = users d v"
    by (simp add: d')
  have 7: "carts d' uid = (case carts d uid of None \<Rightarrow> None | Some cis \<Rightarrow> Some [])"
    by (simp add: d')
  from 1 2 3 4 5 6 7 show ?thesis by blast
qed

text \<open>
  The example: the COD call of user 7 on order 0.
\<close>

theorem C9_witness:
  "fst (cod ex_env ex_db 7 (Some 0)) = Success ''COD order placed successfully'' 0 1
   \<and> products (snd (cod ex_env ex_db 7 (Some 0))) = products ex_db
   \<and> payments (snd (cod ex_env ex_db 7 (Some 0))) = []
   \<and> carts (snd (cod ex_env ex_db 7 (Some 0))) 7 = Some []"
proof -
  have r: "fst (cod ex_env ex_db 7 (Some 0)) = Success ''COD order placed successfully'' 0 1"
    using cod_accepts [OF ex_find0, of 7 ex_env] by (simp add: ex_order_def)
  then have "cod ex_env ex_db 7 (Some 0) = (Success ''COD order placed successfully'' 0 1, snd (cod ex_env ex_db 7 (Some 0)))"
    by (metis prod.collapse)
  from C9_cod_frame [OF this] r show ?thesis
    by (simp add: ex_db_def)
qed

text \<open>
  C10. The idempotency guard is false for a payment id that is null or undefined
  (\<open>None\<close>) or empty; when it is true, some order bears the payment id with payment
  status Paid; and a verify call without a payment id, on either route, is never
  answered with the guard's short-circuit to an existing order.
\<close>

theorem C10_guard:
  "isPaymentAlreadyProcessed d None = False
   \<and> isPaymentAlreadyProcessed d (Some []) = False
   \<and> (isPaymentAlreadyProcessed d pid \<longrightarrow>
        (\<exists>od \<in> set (orders d). paymentId od = pid \<and> paymentStatus od = ''Paid''))
   \<and> (pid = None \<or> pid = Some [] \<longrightarrow>
        fst (verify e d uid rzp_order pid sg addr) \<noteq> Success ''Payment already processed'' i n
      \<and> fst (verify_upi e d uid rzp_order pid sg orderId) \<noteq> Success ''Payment already verified'' i n)"
proof (intro conjI impI)
  show "isPaymentAlreadyProcessed d None = False" by (simp add: isPaymentAlreadyProcessed_def)
  show e: "isPaymentAlreadyProcessed d (Some []) = False" by (simp add: isPaymentAlreadyProcessed_def)
  {
    assume "isPaymentAlreadyProcessed d pid"
    then obtain p where p: "pid = Some p" 
       and f: "find (\<lambda>od. paymentId od = Some p \<and> paymentStatus od = ''Paid'') (orders d) \<noteq> None"
      by (auto simp: isPaymentAlreadyProcessed_def split: option.splits if_splits)
    then obtain od where "find (\<lambda>od. paymentId od = Some p \<and> paymentStatus od = ''Paid'') (orders d) = Some od"
      by auto
    then have "od \<in> set (orders d) \<and> paymentId od = Some p \<and> paymentStatus od = ''Paid''"
      by (auto simp: find_Some_iff)
    with p show "\<exists>od \<in> set (orders d). paymentId od = pid \<and> paymentStatus od = ''Paid''" by auto
  }
  {
    assume a: "pid = None \<or> pid = Some []"
    then have ng: "\<not> isPaymentAlreadyProcessed d pid"
      by (auto simp: isPaymentAlreadyProcessed_def)
    show "fst (verify e d uid rzp_order pid sg addr) \<noteq> Success ''Payment already processed'' i n"
      using ng by (auto simp: verify_def Let_def split: sum.splits option.splits prod.splits)
    show "fst (verify_upi e d uid rzp_order pid sg orderId) \<noteq> Success ''Payment already verified'' i n"
      using ng by (auto simp: verify_upi_def Let_def split: sum.splits option.splits prod.splits)
  }
qed

text \<open>
  The example: the database in which \<open>pay_1\<close> is settled.
\<close>

theorem C10_witness:
  "\<not> isPaymentAlreadyProcessed ex_paid_db None
   \<and> \<not> isPaymentAlreadyProcessed ex_paid_db (Some [])
   \<and> isPaymentAlreadyProcessed ex_paid_db (Some ''pay_1'')
   \<and> (\<exists>od \<in> set (orders ex_paid_db). paymentId od = Some ''pay_1'' \<and> paymentStatus od = ''Paid'')
   \<and> fst (verify ex_env ex_paid_db 7 (Some ''order_1'') None (Some ''forged'') None)
        \<noteq> Success ''Payment already processed'' 0 1"
proof -
  have g: "isPaymentAlreadyProcessed ex_paid_db (Some ''pay_1'')"
    unfolding guard_iff by (simp add: ex_paid_db_def)
  from C10_guard [of ex_paid_db "Some ''pay_1''" ex_env 7 "Some ''order_1''" "Some ''forged''" None 0 1 0]
       C10_guard [of ex_paid_db None ex_env 7 "Some ''order_1''" "Some ''forged''" None 0 1 0] g
  show ?thesis by simp
qed

end
